theory Spec2Isabelle
  imports Complex_Main "HOL-Library.Word"
begin

section \<open>JavaScript numbers\<close>

text \<open>
  The source is TypeScript; its numbers are IEEE-754 binary64 values (doubles). A number
  is \<open>NaN\<close>, one of the two infinities, the negative zero \<open>NZero\<close>, or \<open>Fin r\<close>
  for the double of real value \<open>r\<close> (\<open>Fin 0\<close> is the positive zero). The arithmetic
  follows ECMAScript: the exact result is rounded to the nearest double, ties to the even
  significand; a result of magnitude \<open>2^1024\<close> or more after rounding is an infinity; the
  subnormal range ends at \<open>2^-1074\<close>, below half of which a result is a zero with the
  sign of the exact result.
\<close>

datatype jsnum = NaN | PInf | NInf | NZero | Fin real

subsection \<open>Rounding a real to a double\<close>

text \<open>
  \<open>ilog2 a\<close>, for \<open>a > 0\<close>, is the integer \<open>k\<close> with \<open>2^k \<le> a < 2^(k+1)\<close>: found by
  halving from above 1 and by doubling from below.
\<close>

function ilog2_up :: "real \<Rightarrow> int" where
  "ilog2_up a = (if a < 2 then 0 else 1 + ilog2_up (a / 2))"
  by pat_completeness auto
termination
proof (relation "measure (\<lambda>a. nat \<lfloor>a\<rfloor>)")
  show "wf (measure (\<lambda>a::real. nat \<lfloor>a\<rfloor>))" by simp
next
  fix a :: real
  assume "\<not> a < 2"
  then have "\<lfloor>a / 2\<rfloor> < \<lfloor>a\<rfloor>" "0 < \<lfloor>a\<rfloor>"
    by linarith+
  then show "(a / 2, a) \<in> measure (\<lambda>a. nat \<lfloor>a\<rfloor>)"
    by simp
qed

function ilog2_down :: "real \<Rightarrow> int" where
  "ilog2_down a = (if a \<le> 0 \<or> 1 \<le> a then 0 else ilog2_down (2 * a) - 1)"
  by pat_completeness auto
termination
proof (relation "measure (\<lambda>a. nat \<lceil>1 / a\<rceil>)")
  show "wf (measure (\<lambda>a::real. nat \<lceil>1 / a\<rceil>))" by simp
next
  fix a :: real
  assume "\<not> (a \<le> 0 \<or> 1 \<le> a)"
  then have a: "0 < a" "a < 1" by auto
  then have y: "1 < 1 / a" by simp
  define y where "y = 1 / a"
  have h: "1 / (2 * a) = y / 2" by (simp add: y_def)
  from y have y1: "1 < y" by (simp add: y_def)
  then have c: "2 \<le> \<lceil>y\<rceil>"
    by linarith
  then have c': "2 \<le> (of_int \<lceil>y\<rceil> :: real)"
    by linarith
  have "y \<le> of_int \<lceil>y\<rceil>"
    by (rule le_of_int_ceiling)
  with c' have "y / 2 \<le> of_int \<lceil>y\<rceil> - 1"
    by linarith
  then have "\<lceil>y / 2\<rceil> < \<lceil>y\<rceil>"
    by (simp add: ceiling_less_iff)
  then have "\<lceil>1 / (2 * a)\<rceil> < \<lceil>1 / a\<rceil>"
    by (simp only: h) (simp only: y_def)
  moreover from c have "0 < \<lceil>1 / a\<rceil>"
    unfolding y_def by linarith
  ultimately show "(2 * a, a) \<in> measure (\<lambda>a. nat \<lceil>1 / a\<rceil>)"
    by (simp only: in_measure)
qed

declare ilog2_up.simps [simp del]
declare ilog2_down.simps [simp del]

definition ilog2 :: "real \<Rightarrow> int" where
  "ilog2 a = (if 1 \<le> a then ilog2_up a else ilog2_down a)"

definition pow2 :: "int \<Rightarrow> real" where
  "pow2 e = (if 0 \<le> e then 2 ^ nat e else 1 / 2 ^ nat (- e))"

definition roundHalfEven :: "real \<Rightarrow> int" where
  "roundHalfEven q =
     (let f = \<lfloor>q\<rfloor>; r = q - of_int f
      in if r < 1 / 2 then f else if 1 / 2 < r then f + 1 else if even f then f else f + 1)"

definition js_zero :: "bool \<Rightarrow> jsnum" where
  "js_zero negative = (if negative then NZero else Fin 0)"

definition js_inf :: "bool \<Rightarrow> jsnum" where
  "js_inf negative = (if negative then NInf else PInf)"

text \<open>
  The double nearest to a real: a significand \<open>m\<close> of at most 53 bits at the exponent
  \<open>e\<close> of the last place, which is not below \<open>-1074\<close>.
\<close>

definition toDouble :: "real \<Rightarrow> jsnum" where
  "toDouble r =
     (if r = 0 then Fin 0
      else
        (let e = max (ilog2 \<bar>r\<bar> - 52) (- 1074);
             m = roundHalfEven (\<bar>r\<bar> / pow2 e);
             v = of_int m * pow2 e
         in if m = 0 then js_zero (r < 0)
            else if 2 ^ 1024 \<le> v then js_inf (r < 0)
            else Fin (if r < 0 then - v else v)))"

subsection \<open>The operators\<close>

fun js_isZero :: "jsnum \<Rightarrow> bool" where
  "js_isZero NZero = True"
| "js_isZero (Fin a) = (a = 0)"
| "js_isZero _ = False"

fun js_isInf :: "jsnum \<Rightarrow> bool" where
  "js_isInf PInf = True"
| "js_isInf NInf = True"
| "js_isInf _ = False"

text \<open>The sign bit, and the real value of a finite number.\<close>

fun js_negative :: "jsnum \<Rightarrow> bool" where
  "js_negative NInf = True"
| "js_negative NZero = True"
| "js_negative (Fin a) = (a < 0)"
| "js_negative _ = False"

fun js_value :: "jsnum \<Rightarrow> real" where
  "js_value (Fin a) = a"
| "js_value _ = 0"

fun js_neg :: "jsnum \<Rightarrow> jsnum" where
  "js_neg NaN = NaN"
| "js_neg PInf = NInf"
| "js_neg NInf = PInf"
| "js_neg NZero = Fin 0"
| "js_neg (Fin a) = (if a = 0 then NZero else Fin (- a))"

fun js_add :: "jsnum \<Rightarrow> jsnum \<Rightarrow> jsnum" where
  "js_add NaN _ = NaN"
| "js_add _ NaN = NaN"
| "js_add PInf NInf = NaN"
| "js_add NInf PInf = NaN"
| "js_add PInf _ = PInf"
| "js_add _ PInf = PInf"
| "js_add NInf _ = NInf"
| "js_add _ NInf = NInf"
| "js_add NZero NZero = NZero"
| "js_add NZero (Fin b) = Fin b"
| "js_add (Fin a) NZero = Fin a"
| "js_add (Fin a) (Fin b) = toDouble (a + b)"

definition js_sub :: "jsnum \<Rightarrow> jsnum \<Rightarrow> jsnum" where
  "js_sub a b = js_add a (js_neg b)"

definition js_mul :: "jsnum \<Rightarrow> jsnum \<Rightarrow> jsnum" where
  "js_mul a b =
     (if a = NaN \<or> b = NaN then NaN
      else if js_isInf a \<or> js_isInf b then
        (if js_isZero a \<or> js_isZero b then NaN else js_inf (js_negative a \<noteq> js_negative b))
      else if js_isZero a \<or> js_isZero b then js_zero (js_negative a \<noteq> js_negative b)
      else toDouble (js_value a * js_value b))"

definition js_div :: "jsnum \<Rightarrow> jsnum \<Rightarrow> jsnum" where
  "js_div a b =
     (if a = NaN \<or> b = NaN then NaN
      else if js_isInf a then
        (if js_isInf b then NaN else js_inf (js_negative a \<noteq> js_negative b))
      else if js_isInf b then js_zero (js_negative a \<noteq> js_negative b)
      else if js_isZero b then
        (if js_isZero a then NaN else js_inf (js_negative a \<noteq> js_negative b))
      else if js_isZero a then js_zero (js_negative a \<noteq> js_negative b)
      else toDouble (js_value a / js_value b))"

text \<open>Comparisons: false whenever an operand is \<open>NaN\<close>; the two zeros are equal.\<close>

fun js_lt :: "jsnum \<Rightarrow> jsnum \<Rightarrow> bool" where
  "js_lt NaN _ = False"
| "js_lt _ NaN = False"
| "js_lt _ NInf = False"
| "js_lt NInf _ = True"
| "js_lt PInf _ = False"
| "js_lt _ PInf = True"
| "js_lt a b = (js_value a < js_value b)"

definition js_gt :: "jsnum \<Rightarrow> jsnum \<Rightarrow> bool" where
  "js_gt a b = js_lt b a"

text \<open>\<open>a === b\<close> on numbers: \<open>NaN\<close> is not equal to itself, and \<open>-0 === 0\<close>.\<close>

definition js_strict_eq :: "jsnum \<Rightarrow> jsnum \<Rightarrow> bool" where
  "js_strict_eq a b = (a \<noteq> NaN \<and> b \<noteq> NaN \<and> (a = b \<or> (js_isZero a \<and> js_isZero b)))"

definition js_le :: "jsnum \<Rightarrow> jsnum \<Rightarrow> bool" where
  "js_le a b = (js_lt a b \<or> js_strict_eq a b)"

definition js_ge :: "jsnum \<Rightarrow> jsnum \<Rightarrow> bool" where
  "js_ge a b = js_le b a"

section \<open>JavaScript strings\<close>

text \<open>
  A string is a sequence of UTF-16 code units. \<open>js\<close> turns a literal into one, and
  \<open>jc\<close> a character.
\<close>

type_synonym jschar = "16 word"
type_synonym jsstring = "jschar list"

definition jc :: "char \<Rightarrow> jschar" where
  "jc c = of_nat (of_char c)"

definition js :: "string \<Rightarrow> jsstring" where
  "js s = map jc s"

datatype js_exception = URIError | TypeError

subsection \<open>\<open>encodeURIComponent\<close>\<close>

text \<open>
  The built-in of ECMAScript (abstract operation \<open>Encode\<close> with the unreserved set of
  \<open>encodeURIComponent\<close>): a letter, a digit or one of \<^verbatim>\<open>-_.!~*'()\<close> is kept; any other
  code point is written as the percent-escaped octets of its UTF-8 encoding; a surrogate
  that is not part of a pair throws \<open>URIError\<close>.
\<close>

definition isUnreserved :: "jschar \<Rightarrow> bool" where
  "isUnreserved c =
     ((0x41 \<le> c \<and> c \<le> 0x5A) \<or> (0x61 \<le> c \<and> c \<le> 0x7A) \<or> (0x30 \<le> c \<and> c \<le> 0x39)
      \<or> c \<in> set [0x2D, 0x5F, 0x2E, 0x21, 0x7E, 0x2A, 0x27, 0x28, 0x29])"

definition isLeadingSurrogate :: "jschar \<Rightarrow> bool" where
  "isLeadingSurrogate c = (0xD800 \<le> c \<and> c \<le> 0xDBFF)"

definition isTrailingSurrogate :: "jschar \<Rightarrow> bool" where
  "isTrailingSurrogate c = (0xDC00 \<le> c \<and> c \<le> 0xDFFF)"

definition UTF16SurrogatePairToCodePoint :: "jschar \<Rightarrow> jschar \<Rightarrow> nat" where
  "UTF16SurrogatePairToCodePoint lead trail =
     (unat lead - 0xD800) * 0x400 + (unat trail - 0xDC00) + 0x10000"

definition utf8 :: "nat \<Rightarrow> nat list" where
  "utf8 cp =
     (if cp < 0x80 then [cp]
      else if cp < 0x800 then [0xC0 + cp div 0x40, 0x80 + cp mod 0x40]
      else if cp < 0x10000 then
        [0xE0 + cp div 0x1000, 0x80 + (cp div 0x40) mod 0x40, 0x80 + cp mod 0x40]
      else
        [0xF0 + cp div 0x40000, 0x80 + (cp div 0x1000) mod 0x40,
         0x80 + (cp div 0x40) mod 0x40, 0x80 + cp mod 0x40])"

definition hexDigit :: "nat \<Rightarrow> jschar" where
  "hexDigit n = (if n < 10 then of_nat (0x30 + n) else of_nat (0x41 + (n - 10)))"

definition percentEscape :: "nat list \<Rightarrow> jsstring" where
  "percentEscape octets =
     concat (map (\<lambda>b. [jc CHR ''%'', hexDigit (b div 16), hexDigit (b mod 16)]) octets)"

fun Encode :: "jsstring \<Rightarrow> js_exception + jsstring" where
  "Encode [] = Inr []"
| "Encode (c # cs) =
     (if isUnreserved c then
        (case Encode cs of Inl e \<Rightarrow> Inl e | Inr r \<Rightarrow> Inr (c # r))
      else if isTrailingSurrogate c then Inl URIError
      else if isLeadingSurrogate c then
        (case cs of
           [] \<Rightarrow> Inl URIError
         | d # ds \<Rightarrow>
             if isTrailingSurrogate d then
               (case Encode ds of
                  Inl e \<Rightarrow> Inl e
                | Inr r \<Rightarrow> Inr (percentEscape (utf8 (UTF16SurrogatePairToCodePoint c d)) @ r))
             else Inl URIError)
      else
        (case Encode cs of
           Inl e \<Rightarrow> Inl e
         | Inr r \<Rightarrow> Inr (percentEscape (utf8 (unat c)) @ r)))"

definition encodeURIComponent :: "jsstring \<Rightarrow> js_exception + jsstring" where
  "encodeURIComponent s = Encode s"

subsection \<open>\<open>split\<close>, \<open>map\<close>, \<open>join\<close>\<close>

text \<open>\<open>s.split(sep)\<close> and \<open>a.join(sep)\<close> for a separator of one character.\<close>

fun split :: "jschar \<Rightarrow> jsstring \<Rightarrow> jsstring list" where
  "split sep [] = [[]]"
| "split sep (c # cs) =
     (if c = sep then [] # split sep cs
      else (case split sep cs of [] \<Rightarrow> [[c]] | seg # segs \<Rightarrow> (c # seg) # segs))"

fun join :: "jschar \<Rightarrow> jsstring list \<Rightarrow> jsstring" where
  "join sep [] = []"
| "join sep [seg] = seg"
| "join sep (seg # segs) = seg @ sep # join sep segs"

text \<open>\<open>a.map(f)\<close> for an \<open>f\<close> that may throw: the first exception ends the call.\<close>

fun map_throwing :: "('a \<Rightarrow> js_exception + 'b) \<Rightarrow> 'a list \<Rightarrow> js_exception + 'b list" where
  "map_throwing f [] = Inr []"
| "map_throwing f (a # as) =
     (case f a of
        Inl e \<Rightarrow> Inl e
      | Inr b \<Rightarrow> (case map_throwing f as of Inl e \<Rightarrow> Inl e | Inr bs \<Rightarrow> Inr (b # bs)))"

text \<open>
  Well-formed UTF-16: every surrogate is half of a pair. These are the strings on which
  \<open>encodeURIComponent\<close> returns.
\<close>

fun wellFormed :: "jsstring \<Rightarrow> bool" where
  "wellFormed [] = True"
| "wellFormed [c] = (\<not> isLeadingSurrogate c \<and> \<not> isTrailingSurrogate c)"
| "wellFormed (c # d # ds) =
     (if isLeadingSurrogate c then isTrailingSurrogate d \<and> wellFormed ds
      else \<not> isTrailingSurrogate c \<and> wellFormed (d # ds))"

section \<open>Build constants\<close>

text \<open>
  The module \<^verbatim>\<open>internal:constants\<close> is not under src/: its three flags are fixed when
  the engine is built, and are parameters here.
\<close>

record Constants =
  EDITOR :: bool
  TEST :: bool
  BUILD :: bool

section \<open>SubContextView\<close>

text \<open>
  The component of \<^verbatim>\<open>src/unnamed/part_000\<close>. A member the source writes with a leading
  underscore (\<^verbatim>\<open>_fps\<close>) is written here with the prefix \<open>u_\<close> (\<open>u_fps\<close>), since an
  Isabelle name starts with a letter.
\<close>

subsection \<open>The collaborators the component reads and writes\<close>

text \<open>
  \<open>Size\<close> is the engine's pair of a width and a height; the same pair gives the
  dimensions of the shared canvas and the content size of a node's \<open>UITransform\<close>.
  \<open>Rect\<close> adds the origin.
\<close>

record Size =
  width :: jsnum
  height :: jsnum

record Rect = Size +
  x :: jsnum
  y :: jsnum

text \<open>
  Modelled from the spec: \<open>Size.equals\<close> and \<open>Size.set\<close> (cocos/core/math) are
  not under src/. A value is equal to the current one when both components are equal
  as numbers (\<^verbatim>\<open>===\<close>), and \<open>set\<close> stores both components of its argument.
\<close>

definition Size_equals :: "Size \<Rightarrow> Size \<Rightarrow> bool" where
  "Size_equals a b = (js_strict_eq (width a) (width b) \<and> js_strict_eq (height a) (height b))"

definition Size_set :: "Size \<Rightarrow> Size \<Rightarrow> Size" where
  "Size_set target v = target\<lparr>width := width v, height := height v\<rparr>"

text \<open>The message \<open>_updateSubContextView\<close> posts: the viewport and three constant fields.\<close>

record ViewportMessage = Rect +
  fromEngine :: bool
  msg_type :: string
  event :: string

text \<open>
  The open data context of the host platform: its shared canvas, and the messages posted
  to it so far (\<open>postMessage\<close> appends one).
\<close>

record OpenDataContext =
  canvas :: Size
  posted :: "ViewportMessage list"

definition postMessage :: "ViewportMessage \<Rightarrow> OpenDataContext \<Rightarrow> OpenDataContext" where
  "postMessage m ctx = ctx\<lparr>posted := posted ctx @ [m]\<rparr>"

text \<open>
  \<open>ImageAsset\<close> and its texture are not under src/. The image either has no data or
  wraps the shared canvas (after \<open>reset(sharedCanvas)\<close>); wrapping is by reference, so
  its width and height are read from the canvas. The texture is the list of calls it has
  received.
\<close>

datatype ImageSource = NoData | SharedCanvas

datatype TextureCall = Create jsnum jsnum | UploadData

record ImageAsset =
  nativeData :: ImageSource
  u_texture :: "TextureCall list"

definition ImageAsset_reset :: "ImageAsset \<Rightarrow> ImageAsset" where
  "ImageAsset_reset img = img\<lparr>nativeData := SharedCanvas\<rparr>"

definition ImageAsset_width :: "ImageAsset \<Rightarrow> Size \<Rightarrow> jsnum" where
  "ImageAsset_width img sharedCanvas =
     (case nativeData img of NoData \<Rightarrow> Fin 0 | SharedCanvas \<Rightarrow> width sharedCanvas)"

definition ImageAsset_height :: "ImageAsset \<Rightarrow> Size \<Rightarrow> jsnum" where
  "ImageAsset_height img sharedCanvas =
     (case nativeData img of NoData \<Rightarrow> Fin 0 | SharedCanvas \<Rightarrow> height sharedCanvas)"

text \<open>Sprites: a sprite frame holds a reference to a texture.\<close>

datatype TextureRef = OtherTexture | ImageAssetTexture

record SpriteFrame =
  texture :: TextureRef

record Sprite =
  spriteFrame :: "SpriteFrame option"

text \<open>
  A node: the content size of its \<open>UITransform\<close> and the events for which
  \<open>_updateSubContextView\<close> is registered on it. The private content node also has its
  \<open>Sprite\<close> component (if any) and whether it has been attached to the component's node.
\<close>

datatype EventType = TRANSFORM_CHANGED | SIZE_CHANGED

record Node =
  uiTransform :: Size
  listeners :: "EventType list"

record PrivateNode = Node +
  sprite :: "Sprite option"
  parentIsNode :: bool

datatype SpriteRef = NoSprite | ContentSprite

text \<open>
  The environment: the build constants, the platform adapter
  \<^verbatim>\<open>__globalAdapter\<close> (absent off the platform) with its two optional methods, the
  visible size of the view, and the world bounding box of the content node as a function
  of its content size. \<open>getOpenDataContext = Some r\<close> is a method that returns \<open>r\<close>.
\<close>

record SystemInfo =
  screenWidth :: jsnum
  screenHeight :: jsnum

record GlobalAdapter =
  getOpenDataContext :: "OpenDataContext option option"
  getSystemInfoSync :: "SystemInfo option"

record ViewEnv = Constants +
  globalAdapter :: "GlobalAdapter option"
  getVisibleSize :: Size
  getBoundingBoxToWorld :: "Size \<Rightarrow> Rect"

subsection \<open>The component\<close>

record SubContextView =
  u_fps :: jsnum
  u_sprite :: SpriteRef
  u_imageAsset :: ImageAsset
  u_updatedTime :: jsnum
  u_updateInterval :: jsnum
  u_openDataContext :: "OpenDataContext option"
  u_content :: PrivateNode
  u_designResolutionSize :: Size
  node :: Node
  enabled :: bool

text \<open>
  The field initialisers and the constructor. \<open>now\<close> is the value of
  \<^verbatim>\<open>performance.now()\<close>; \<open>n\<close> is the node the component is added to and \<open>content\<close>
  the content size of the fresh private node.
\<close>

definition new_SubContextView :: "jsnum \<Rightarrow> Node \<Rightarrow> Size \<Rightarrow> SubContextView" where
  "new_SubContextView now n content =
     \<lparr> u_fps = Fin 60,
       u_sprite = NoSprite,
       u_imageAsset = \<lparr> nativeData = NoData, u_texture = [] \<rparr>,
       u_updatedTime = now,
       u_updateInterval = Fin 0,
       u_openDataContext = None,
       u_content = \<lparr> uiTransform = content, listeners = [], sprite = None, parentIsNode = False \<rparr>,
       u_designResolutionSize = \<lparr> width = Fin 640, height = Fin 960 \<rparr>,
       node = n,
       enabled = True \<rparr>"

text \<open>The two serialised fields are restored from the scene file before \<open>onLoad\<close>.\<close>

definition deserialize :: "jsnum \<Rightarrow> Size \<Rightarrow> SubContextView \<Rightarrow> SubContextView" where
  "deserialize f d s = s\<lparr>u_fps := f, u_designResolutionSize := d\<rparr>"

definition get_designResolutionSize :: "SubContextView \<Rightarrow> Size" where
  "get_designResolutionSize s = u_designResolutionSize s"

definition set_designResolutionSize :: "ViewEnv \<Rightarrow> Size \<Rightarrow> SubContextView \<Rightarrow> SubContextView" where
  "set_designResolutionSize env v s =
     (if \<not> EDITOR env \<or> Size_equals v (u_designResolutionSize s) then s
      else s\<lparr>u_designResolutionSize := Size_set (u_designResolutionSize s) v\<rparr>)"

definition get_fps :: "SubContextView \<Rightarrow> jsnum" where
  "get_fps s = u_fps s"

definition set_fps :: "jsnum \<Rightarrow> SubContextView \<Rightarrow> SubContextView" where
  "set_fps v s =
     (if js_strict_eq (u_fps s) v then s
      else s\<lparr>u_fps := v, u_updateInterval := js_div (Fin 1000) v\<rparr>)"

definition initSharedCanvas :: "SubContextView \<Rightarrow> SubContextView" where
  "initSharedCanvas s =
     (case u_openDataContext s of
        None \<Rightarrow> s
      | Some ctx \<Rightarrow>
          s\<lparr>u_openDataContext :=
               Some (ctx\<lparr>canvas := \<lparr> width = width (u_designResolutionSize s),
                                     height = height (u_designResolutionSize s) \<rparr>\<rparr>)\<rparr>)"

definition initContentNode :: "SubContextView \<Rightarrow> SubContextView" where
  "initContentNode s =
     (case u_openDataContext s of
        None \<Rightarrow> s
      | Some ctx \<Rightarrow>
          (let sharedCanvas = canvas ctx;
               image = ImageAsset_reset (u_imageAsset s);
               image = image\<lparr>u_texture := u_texture image @ [Create (width sharedCanvas) (height sharedCanvas)]\<rparr>;
               sp = (case sprite (u_content s) of None \<Rightarrow> \<lparr> spriteFrame = None \<rparr> | Some sp \<Rightarrow> sp);
               sp = (case spriteFrame sp of
                       Some fr \<Rightarrow> sp\<lparr>spriteFrame := Some (fr\<lparr>texture := ImageAssetTexture\<rparr>)\<rparr>
                     | None \<Rightarrow> sp\<lparr>spriteFrame := Some \<lparr> texture = ImageAssetTexture \<rparr>\<rparr>)
           in s\<lparr>u_imageAsset := image,
                u_sprite := ContentSprite,
                u_content := (u_content s)\<lparr>sprite := Some sp, parentIsNode := True\<rparr>\<rparr>))"

text \<open>
  \<open>_updateSubContextView\<close>. It returns at once unless the open data context is set and
  the adapter is there and has \<open>getSystemInfoSync\<close>; otherwise it rescales the
  content node to fit the component's node and posts one viewport message. The source
  casts both \<open>getComponent(UITransform)\<close> results to \<open>UITransform\<close>: both nodes
  have one.
\<close>

definition updateSubContextView :: "ViewEnv \<Rightarrow> SubContextView \<Rightarrow> SubContextView" where
  "updateSubContextView env s =
     (case u_openDataContext s of
        None \<Rightarrow> s
      | Some ctx \<Rightarrow>
     (case globalAdapter env of
        None \<Rightarrow> s
      | Some adapter \<Rightarrow>
     (case getSystemInfoSync adapter of
        None \<Rightarrow> s
      | Some systemInfo \<Rightarrow>
          (let nodeTrans = uiTransform (node s);
               contentTrans = uiTransform (u_content s);
               scaleX = js_div (width nodeTrans) (width contentTrans);
               scaleY = js_div (height nodeTrans) (height contentTrans);
               scale = (if js_gt scaleX scaleY then scaleY else scaleX);
               contentTrans = contentTrans\<lparr>width := js_mul (width contentTrans) scale\<rparr>;
               contentTrans = contentTrans\<lparr>height := js_mul (height contentTrans) scale\<rparr>;
               box = getBoundingBoxToWorld env contentTrans;
               visibleSize = getVisibleSize env;
               mx = js_mul (screenWidth systemInfo) (js_div (x box) (width visibleSize));
               my = js_mul (screenHeight systemInfo) (js_div (y box) (height visibleSize));
               mwidth = js_mul (screenWidth systemInfo) (js_div (width box) (width visibleSize));
               mheight = js_mul (screenHeight systemInfo) (js_div (height box) (height visibleSize))
           in s\<lparr>u_content := (u_content s)\<lparr>uiTransform := contentTrans\<rparr>,
                u_openDataContext :=
                  Some (postMessage
                    \<lparr> width = mwidth, height = mheight, x = mx, y = my,
                      fromEngine = True, msg_type = ''engine'', event = ''viewport'' \<rparr> ctx)\<rparr>))))"

text \<open>\<open>_updateSubContextTexture\<close>: the texture copy, behind its two early returns.\<close>

definition updateSubContextTexture :: "SubContextView \<Rightarrow> SubContextView" where
  "updateSubContextTexture s =
     (case u_openDataContext s of
        None \<Rightarrow> s
      | Some ctx \<Rightarrow>
          (let img = u_imageAsset s in
           if js_le (ImageAsset_width img (canvas ctx)) (Fin 0)
              \<or> js_le (ImageAsset_height img (canvas ctx)) (Fin 0) then s
           else
             (let sharedCanvas = canvas ctx;
                  img = ImageAsset_reset img;
                  img = (if js_gt (width sharedCanvas) (ImageAsset_width img sharedCanvas)
                            \<or> js_gt (height sharedCanvas) (ImageAsset_height img sharedCanvas)
                         then img\<lparr>u_texture := u_texture img @ [Create (width sharedCanvas) (height sharedCanvas)]\<rparr>
                         else img)
              in s\<lparr>u_imageAsset := img\<lparr>u_texture := u_texture img @ [UploadData]\<rparr>\<rparr>)))"

definition onLoad :: "ViewEnv \<Rightarrow> SubContextView \<Rightarrow> SubContextView" where
  "onLoad env s =
     (case globalAdapter env of
        None \<Rightarrow> s\<lparr>enabled := False\<rparr>
      | Some adapter \<Rightarrow>
     (case getOpenDataContext adapter of
        None \<Rightarrow> s\<lparr>enabled := False\<rparr>
      | Some ctx \<Rightarrow>
          (let s = s\<lparr>u_updateInterval := js_div (Fin 1000) (u_fps s)\<rparr>;
               s = s\<lparr>u_openDataContext := ctx\<rparr>;
               s = initSharedCanvas s;
               s = initContentNode s
           in updateSubContextView env s)))"

text \<open>
  Registration of \<open>_updateSubContextView\<close> on the component's node; the node calls a
  registered listener when it emits the event.
\<close>

definition registerNodeEvent :: "SubContextView \<Rightarrow> SubContextView" where
  "registerNodeEvent s =
     s\<lparr>node := (node s)\<lparr>listeners :=
          List.insert SIZE_CHANGED (List.insert TRANSFORM_CHANGED (listeners (node s)))\<rparr>\<rparr>"

definition unregisterNodeEvent :: "SubContextView \<Rightarrow> SubContextView" where
  "unregisterNodeEvent s =
     s\<lparr>node := (node s)\<lparr>listeners :=
          removeAll SIZE_CHANGED (removeAll TRANSFORM_CHANGED (listeners (node s)))\<rparr>\<rparr>"

definition onEnable :: "SubContextView \<Rightarrow> SubContextView" where
  "onEnable s = registerNodeEvent s"

definition onDisable :: "SubContextView \<Rightarrow> SubContextView" where
  "onDisable s = unregisterNodeEvent s"

definition emit :: "ViewEnv \<Rightarrow> EventType \<Rightarrow> SubContextView \<Rightarrow> SubContextView" where
  "emit env ev s = (if ev \<in> set (listeners (node s)) then updateSubContextView env s else s)"

text \<open>
  \<open>update(dt?)\<close>. \<open>dt = None\<close> is the call without an argument; \<open>now\<close> is the value
  \<^verbatim>\<open>performance.now()\<close> returns during the call.
\<close>

definition update :: "jsnum option \<Rightarrow> jsnum \<Rightarrow> SubContextView \<Rightarrow> SubContextView" where
  "update dt now s =
     (let calledUpdateManually = (dt = None) in
      if calledUpdateManually then updateSubContextTexture s
      else
        (let deltaTime = js_sub now (u_updatedTime s) in
         if js_ge deltaTime (u_updateInterval s)
         then updateSubContextTexture (s\<lparr>u_updatedTime := js_add (u_updatedTime s) (u_updateInterval s)\<rparr>)
         else s))"

subsection \<open>Runs of the component\<close>

text \<open>
  What the engine and user code do to a component after it is loaded, as a list of calls:
  the two setters, \<open>update\<close> (by the frame loop with \<open>dt\<close>, or by hand without), an
  event of the node, \<open>onEnable\<close> and \<open>onDisable\<close>.
\<close>

datatype Call =
    SetFps jsnum
  | SetDesignResolutionSize Size
  | Update "jsnum option" jsnum
  | Emit EventType
  | OnEnable
  | OnDisable

fun call :: "ViewEnv \<Rightarrow> Call \<Rightarrow> SubContextView \<Rightarrow> SubContextView" where
  "call env (SetFps v) s = set_fps v s"
| "call env (SetDesignResolutionSize v) s = set_designResolutionSize env v s"
| "call env (Update dt now) s = update dt now s"
| "call env (Emit ev) s = emit env ev s"
| "call env OnEnable s = onEnable s"
| "call env OnDisable s = onDisable s"

fun run :: "ViewEnv \<Rightarrow> Call list \<Rightarrow> SubContextView \<Rightarrow> SubContextView" where
  "run env [] s = s"
| "run env (c # cs) s = run env cs (call env c s)"


text \<open>The messages posted so far to the component's open data context.\<close>

definition messages :: "SubContextView \<Rightarrow> ViewportMessage list" where
  "messages s = (case u_openDataContext s of None \<Rightarrow> [] | Some ctx \<Rightarrow> posted ctx)"



text \<open>A platform with a 300 x 600 screen, and a component on a 200 x 100 node, loaded.\<close>

definition demo_env :: ViewEnv where
  "demo_env =
     \<lparr> EDITOR = False, TEST = False, BUILD = True,
       globalAdapter = Some
         \<lparr> getOpenDataContext = Some (Some \<lparr> canvas = \<lparr> width = Fin 0, height = Fin 0 \<rparr>, posted = [] \<rparr>),
           getSystemInfoSync = Some \<lparr> screenWidth = Fin 300, screenHeight = Fin 600 \<rparr> \<rparr>,
       getVisibleSize = \<lparr> width = Fin 600, height = Fin 1200 \<rparr>,
       getBoundingBoxToWorld = (\<lambda>t. \<lparr> width = width t, height = height t, x = Fin 20, y = Fin 40 \<rparr>) \<rparr>"

definition demo_view :: SubContextView where
  "demo_view =
     onLoad demo_env
       (new_SubContextView (Fin 0) \<lparr> uiTransform = \<lparr> width = Fin 200, height = Fin 100 \<rparr>, listeners = [] \<rparr>
          \<lparr> width = Fin 100, height = Fin 100 \<rparr>)"


text \<open>Three frames, 17 ms apart, at the default 60 fps: the gate opens at each.\<close>

definition demo_frames :: "Call list" where
  "demo_frames =
     [Update (Some (Fin 17)) (Fin 17), Update (Some (Fin 17)) (Fin 34), Update (Some (Fin 17)) (Fin 51)]"

fun isUpdate :: "Call \<Rightarrow> bool" where
  "isUpdate (Update dt now) = True"
| "isUpdate _ = False"

section \<open>AssetLibrary\<close>

text \<open>
  The module \<^verbatim>\<open>src/cocos/core/assets/asset-library.ts\<close>: its module variables
  \<open>_libraryBase\<close>, \<open>_rawAssetsBase\<close> and \<open>_uuidToRawAsset\<close>, the cache
  \<open>AssetLibrary._uuidToAsset\<close>, and what it reaches of the engine: the asset tables of
  the loader, the calls it makes on the loader pipeline, and the debug log.
\<close>

subsection \<open>Values\<close>

text \<open>A class (a constructor) is known by its name.\<close>

datatype Ctor = Ctor string

record RawAssetEntry =
  url :: jsstring
  type :: Ctor

text \<open>A value that may be \<open>undefined\<close> or \<open>null\<close>; both are falsy, an object is truthy.\<close>

datatype 'a nullable = JsUndefined | JsNull | JsObject 'a

fun truthy :: "'a nullable \<Rightarrow> bool" where
  "truthy (JsObject a) = True"
| "truthy _ = False"

record JsError =
  message :: jsstring
  errorCode :: "jsstring option"

definition new_Error :: "jsstring \<Rightarrow> JsError" where
  "new_Error m = \<lparr> message = m, errorCode = None \<rparr>"

text \<open>
  An asset, as far as \<open>loadAsset\<close> looks at it: whether its constructor is
  \<open>SceneAsset\<close>, and whether its \<open>scene\<close> is set.
\<close>

record Asset =
  u_uuid :: jsstring
  isSceneAsset :: bool
  scene :: bool

text \<open>
  \<open>AssetTable\<close> (load-pipeline/asset-table) is not under src/: a table is the list of
  the entries added to it since it was last reset.
\<close>

record TableEntry =
  entry_url :: jsstring
  entry_uuid :: jsstring
  entry_type :: Ctor
  isMainAsset :: bool

type_synonym AssetTable = "TableEntry list"

definition AssetTable_reset :: "AssetTable \<Rightarrow> AssetTable" where
  "AssetTable_reset t = []"

definition AssetTable_add :: "jsstring \<Rightarrow> jsstring \<Rightarrow> Ctor \<Rightarrow> bool \<Rightarrow> AssetTable \<Rightarrow> AssetTable" where
  "AssetTable_add path uuid ty main t =
     t @ [\<lparr> entry_url = path, entry_uuid = uuid, entry_type = ty, isMainAsset = main \<rparr>]"

text \<open>
  An object of the engine that the module only passes on (the sub-packages, the packed
  assets).
\<close>

datatype Opaque = Opaque nat

text \<open>
  One of the two maps handed to \<open>MD5Pipe\<close>: the list of its assignments
  \<open>map[uuid] = hash\<close>, in order.
\<close>

type_synonym Md5Map = "(jsstring \<times> jsstring option) list"

datatype LoaderCall =
    InsertMD5Pipe Md5Map Md5Map jsstring
  | SetSubPackages Opaque
  | InsertSubPackPipe Opaque
  | InitPacks Opaque
  | UrlInit jsstring

datatype DebugCall = ErrorID nat | DebugError "jsstring list"

record AssetLibrary =
  u_libraryBase :: jsstring
  u_rawAssetsBase :: jsstring
  u_uuidToRawAsset :: "jsstring \<rightharpoonup> RawAssetEntry"
  u_uuidToAsset :: "jsstring \<rightharpoonup> Asset nullable"
  u_assetTables :: "jsstring \<rightharpoonup> AssetTable"
  loaderCalls :: "LoaderCall list"
  debugLog :: "DebugCall list"

text \<open>
  The module as it is when loaded: both bases are the empty string, the raw-asset map
  (\<open>createMap(true)\<close>) and the cache (\<open>{}\<close>) have no entry.
\<close>

definition new_AssetLibrary :: "(jsstring \<rightharpoonup> AssetTable) \<Rightarrow> AssetLibrary" where
  "new_AssetLibrary tables =
     \<lparr> u_libraryBase = [], u_rawAssetsBase = [], u_uuidToRawAsset = Map.empty,
       u_uuidToAsset = Map.empty, u_assetTables = tables, loaderCalls = [], debugLog = [] \<rparr>"

text \<open>
  The environment of the module: the build constants, and the functions of the engine it
  calls that are not under src/: \<open>decodeUuid\<close>, \<open>_getClassById\<close>,
  \<open>js.getClassByName\<close>, \<open>isChildClassOf(_, Asset)\<close> and \<open>path.stripSep\<close>.
\<close>

record AssetEnv = Constants +
  decodeUuid :: "jsstring \<Rightarrow> jsstring"
  getClassById :: "jsstring \<Rightarrow> Ctor option"
  getClassByName :: "jsstring \<Rightarrow> Ctor option"
  isChildClassOfAsset :: "Ctor \<Rightarrow> bool"
  stripSep :: "jsstring \<Rightarrow> jsstring"

subsection \<open>\<open>loadAsset\<close>\<close>

text \<open>
  The first argument is a string or not (\<^verbatim>\<open>typeof uuid !== 'string'\<close>); a callback is a
  function, known by a number, or is missing. \<open>loadAsset\<close> does one of two things: it
  hands the callback and two arguments to \<open>callInNextTick\<close>, or it hands an item to
  \<open>loader.load\<close> together with the completion function \<open>loadAsset_loaded\<close>.
\<close>

datatype UuidArg = StringArg jsstring | NotAString

datatype Callback = Callback nat

record LoadOptions =
  opt_existingAsset :: "Asset option"

record LoadItem =
  item_uuid :: jsstring
  item_type :: string
  existingAsset :: "Asset option"

datatype LoadEffect =
    CallInNextTick "Callback option" JsError "Asset nullable"
  | LoaderLoad LoadItem

definition loadAsset :: "UuidArg \<Rightarrow> Callback option \<Rightarrow> LoadOptions option \<Rightarrow> LoadEffect" where
  "loadAsset uuid callback options =
     (case uuid of
        NotAString \<Rightarrow>
          CallInNextTick callback (new_Error (js ''[AssetLibrary] uuid must be string'')) JsNull
      | StringArg u \<Rightarrow>
          (let item = \<lparr> item_uuid = u, item_type = ''uuid'', existingAsset = None \<rparr>;
               item = (case options of
                         None \<Rightarrow> item
                       | Some opts \<Rightarrow>
                           (case opt_existingAsset opts of
                              None \<Rightarrow> item
                            | Some a \<Rightarrow> item\<lparr>existingAsset := Some a\<rparr>))
           in LoaderLoad item))"

text \<open>An invocation of a load callback: \<open>callback(error, asset)\<close>.\<close>

record Invocation =
  invoked :: Callback
  arg_error :: "JsError nullable"
  arg_asset :: "Asset nullable"

text \<open>
  The function \<open>loadAsset\<close> passes to \<open>loader.load\<close>, called by the loader with its
  \<open>(error, asset)\<close>: the invocations of the callback and the calls of \<open>debug.error\<close>
  it makes.
\<close>

definition loadAsset_loaded ::
  "'a Constants_scheme \<Rightarrow> jsstring \<Rightarrow> Callback option \<Rightarrow> JsError nullable \<Rightarrow> Asset nullable
     \<Rightarrow> Invocation list \<times> DebugCall list" where
  "loadAsset_loaded env uuid callback error asset =
     (let failed = (truthy error \<or> \<not> truthy asset);
          error' = (if failed then
                      JsObject (new_Error (js ''[AssetLibrary] loading JSON or dependencies failed: '' @
                        (case error of JsObject e \<Rightarrow> message e | _ \<Rightarrow> js ''Unknown error'')))
                    else error);
          logged = (case asset of
                      JsObject a \<Rightarrow>
                        if \<not> failed \<and> isSceneAsset a \<and> EDITOR env \<and> \<not> scene a
                        then [DebugError [js ''Sorry, the scene data of \"%s\" is corrupted!'', uuid]]
                        else []
                    | _ \<Rightarrow> [])
      in (case callback of
            None \<Rightarrow> ([], logged)
          | Some cb \<Rightarrow> ([\<lparr> invoked = cb, arg_error = error', arg_asset = asset \<rparr>], logged)))"

text \<open>
  Modelled from the spec: \<open>callInNextTick\<close> (utils/misc) is not under src/. On the next
  tick the callback is invoked with the two arguments.
\<close>

fun nextTick :: "LoadEffect \<Rightarrow> Invocation list" where
  "nextTick (CallInNextTick (Some cb) e a) =
     [\<lparr> invoked = cb, arg_error = JsObject e, arg_asset = a \<rparr>]"
| "nextTick _ = []"

subsection \<open>URLs\<close>

text \<open>
  The expression \<^verbatim>\<open>uuid.split('@').map(encodeURIComponent).join('@')\<close>, which the source
  writes out three times.
\<close>

definition encodeSegments :: "jsstring \<Rightarrow> js_exception + jsstring" where
  "encodeSegments uuid =
     (case map_throwing encodeURIComponent (split (jc CHR ''@'') uuid) of
        Inl e \<Rightarrow> Inl e
      | Inr uuids \<Rightarrow> Inr (join (jc CHR ''@'') uuids))"

definition getLibUrlNoExt :: "AssetEnv \<Rightarrow> AssetLibrary \<Rightarrow> jsstring \<Rightarrow> bool \<Rightarrow> js_exception + jsstring" where
  "getLibUrlNoExt env lib uuid inRawAssetsDir =
     (let uuid = (if BUILD env then decodeUuid env uuid else uuid) in
      case encodeSegments uuid of
        Inl e \<Rightarrow> Inl e
      | Inr uuid \<Rightarrow>
          (let base = (if BUILD env \<and> inRawAssetsDir then u_rawAssetsBase lib @ js ''assets/''
                       else u_libraryBase lib)
           in Inr (base @ take 2 uuid @ js ''/'' @ uuid)))"

subsection \<open>\<open>queryAssetInfo\<close>\<close>

record AssetInfo =
  info_url :: "jsstring option"
  raw :: bool

definition getAssetInfoInRuntime ::
  "AssetEnv \<Rightarrow> AssetLibrary \<Rightarrow> jsstring \<Rightarrow> AssetInfo option \<Rightarrow> js_exception + AssetInfo" where
  "getAssetInfoInRuntime env lib uuid result =
     (let result = (case result of Some r \<Rightarrow> r | None \<Rightarrow> \<lparr> info_url = None, raw = False \<rparr>);
          info = u_uuidToRawAsset lib uuid;
          inLibrary =
            (case getLibUrlNoExt env lib uuid False of
               Inl e \<Rightarrow> Inl e
             | Inr u \<Rightarrow> Inr (result\<lparr>info_url := Some (u @ js ''.json''), raw := False\<rparr>))
      in case info of
           None \<Rightarrow> inLibrary
         | Some i \<Rightarrow>
             if \<not> isChildClassOfAsset env (type i)
             then Inr (result\<lparr>info_url := Some (u_rawAssetsBase lib @ url i), raw := True\<rparr>)
             else inLibrary)"

text \<open>
  A call \<open>callback(error, url, raw, ctorInEditor)\<close>; an argument that is not passed is
  \<open>None\<close>, and so is a \<open>null\<close> error.
\<close>

record QueryArgs =
  q_error :: "JsError option"
  q_url :: "jsstring option"
  q_raw :: "bool option"
  q_ctor :: "Ctor option"

datatype QueryEffect =
    CallbackCalled QueryArgs
  | EditorQueryAssetInfo jsstring

record EditorAssetInfo =
  ea_type :: jsstring
  ea_uuid :: jsstring

text \<open>
  The function \<open>_queryAssetInfoInEditor\<close> passes to the editor, called back with
  \<open>(error, info)\<close>.
\<close>

definition queryAssetInfoInEditor_reply ::
  "AssetEnv \<Rightarrow> jsstring \<Rightarrow> JsError option \<Rightarrow> EditorAssetInfo \<Rightarrow> QueryArgs \<times> DebugCall list" where
  "queryAssetInfoInEditor_reply env uuid error info =
     (case error of
        Some err \<Rightarrow>
          (\<lparr> q_error = Some \<lparr> message = js ''Can not get asset url by uuid \"'' @ uuid
                                 @ js ''\", the asset may be deleted.'',
                               errorCode = Some (js ''db.NOTFOUND'') \<rparr>,
             q_url = None, q_raw = None, q_ctor = None \<rparr>,
           [DebugError [message err]])
      | None \<Rightarrow>
          (case getClassByName env (ea_type info) of
             Some ctor \<Rightarrow>
               (\<lparr> q_error = None,
                  q_url = Some (js ''import://'' @ take 2 (ea_uuid info) @ js ''/'' @ ea_uuid info
                                @ js ''.json''),
                  q_raw = Some (\<not> isChildClassOfAsset env ctor),
                  q_ctor = Some ctor \<rparr>, [])
           | None \<Rightarrow>
               (\<lparr> q_error = Some (new_Error (js ''Can not find asset type '' @ ea_type info)),
                  q_url = None, q_raw = None, q_ctor = None \<rparr>, [])))"

definition queryAssetInfoInEditor :: "'a Constants_scheme \<Rightarrow> jsstring \<Rightarrow> QueryEffect list" where
  "queryAssetInfoInEditor env uuid =
     (if EDITOR env then [EditorQueryAssetInfo uuid]
      else [CallbackCalled
              \<lparr> q_error = Some (new_Error (js ''Unable to load resource: EditorExtends is not defined.'')),
                q_url = None, q_raw = None, q_ctor = None \<rparr>])"

definition queryAssetInfo ::
  "AssetEnv \<Rightarrow> AssetLibrary \<Rightarrow> jsstring \<Rightarrow> js_exception + QueryEffect list" where
  "queryAssetInfo env lib uuid =
     (if EDITOR env \<and> \<not> TEST env then Inr (queryAssetInfoInEditor env uuid)
      else (case getAssetInfoInRuntime env lib uuid None of
              Inl e \<Rightarrow> Inl e
            | Inr info \<Rightarrow>
                Inr [CallbackCalled
                       \<lparr> q_error = None, q_url = info_url info, q_raw = Some (raw info),
                         q_ctor = None \<rparr>]))"

definition uuidInSettings :: "AssetLibrary \<Rightarrow> jsstring \<Rightarrow> bool" where
  "uuidInSettings lib uuid = (u_uuidToRawAsset lib uuid \<noteq> None)"

subsection \<open>\<open>getAssetByUuid\<close>\<close>

text \<open>
  The cache is an object literal \<open>{}\<close>, so its prototype is \<open>Object.prototype\<close>, and
  \<open>_uuidToAsset[uuid]\<close> is an ordinary property read: the object's own property of
  that name, else the property of that name of \<open>Object.prototype\<close>, else
  \<open>undefined\<close>. (The raw-asset map is made by \<open>createMap(true)\<close> and has no
  prototype.)
\<close>

definition Object_prototype :: "jsstring list" where
  "Object_prototype =
     map js [''constructor'', ''__defineGetter__'', ''__defineSetter__'', ''hasOwnProperty'',
             ''__lookupGetter__'', ''__lookupSetter__'', ''isPrototypeOf'',
             ''propertyIsEnumerable'', ''toString'', ''valueOf'', ''__proto__'',
             ''toLocaleString'']"

datatype 'a property = Own 'a | Inherited jsstring

definition objectLiteral_get :: "(jsstring \<rightharpoonup> 'a nullable) \<Rightarrow> jsstring \<Rightarrow> 'a property nullable" where
  "objectLiteral_get obj key =
     (case obj key of
        Some (JsObject a) \<Rightarrow> JsObject (Own a)
      | Some JsNull \<Rightarrow> JsNull
      | Some JsUndefined \<Rightarrow> JsUndefined
      | None \<Rightarrow> if key \<in> set Object_prototype then JsObject (Inherited key) else JsUndefined)"

definition getAssetByUuid :: "AssetLibrary \<Rightarrow> jsstring \<Rightarrow> Asset property nullable" where
  "getAssetByUuid lib uuid =
     (let found = objectLiteral_get (u_uuidToAsset lib) uuid
      in if truthy found then found else JsNull)"

subsection \<open>\<open>init\<close>\<close>

text \<open>
  The options of \<open>init\<close>. \<open>md5AssetsMap\<close> holds two flat arrays of alternating uuid
  and hash; \<open>rawAssets\<close> maps a mount point to a map from uuid to the array
  \<open>[url, typeId, isSubAsset]\<close>, and both maps are given as the list of their entries in
  the order \<^verbatim>\<open>for ... in\<close> visits them.
\<close>

record Md5AssetsMap =
  md5_import :: "jsstring list option"
  md5_raw_assets :: "jsstring list option"

record RawAssetInfo =
  info0_url :: jsstring
  info1_typeId :: jsstring
  info2_isSubAsset :: bool

record MountPaths =
  mount_assets :: "jsstring option"

record InitOptions =
  libraryPath :: jsstring
  rawAssetsBase :: jsstring
  md5AssetsMap :: "Md5AssetsMap option"
  subPackages :: "Opaque option"
  rawAssets :: "(jsstring \<times> (jsstring \<times> RawAssetInfo) list) list option"
  packedAssets :: "Opaque option"
  mountPaths :: "MountPaths option"

text \<open>
  One of the two loops over \<open>md5Entries\<close>, stepping by two: the key is the decoded and
  encoded uuid, the value the element after it (\<open>undefined\<close> past the end).
\<close>

fun md5Entries_loop :: "AssetEnv \<Rightarrow> jsstring list \<Rightarrow> js_exception + Md5Map" where
  "md5Entries_loop env [] = Inr []"
| "md5Entries_loop env [u] =
     (case encodeSegments (decodeUuid env u) of
        Inl e \<Rightarrow> Inl e
      | Inr uuid \<Rightarrow> Inr [(uuid, None)])"
| "md5Entries_loop env (u # h # rest) =
     (case encodeSegments (decodeUuid env u) of
        Inl e \<Rightarrow> Inl e
      | Inr uuid \<Rightarrow>
          (case md5Entries_loop env rest of
             Inl e \<Rightarrow> Inl e
           | Inr m \<Rightarrow> Inr ((uuid, Some h) # m)))"

text \<open>
  The block guarded by \<^verbatim>\<open>md5AssetsMap && md5AssetsMap.import\<close>. Reading the length of
  a missing \<^verbatim>\<open>md5AssetsMap['raw-assets']\<close> throws \<open>TypeError\<close>.
\<close>

definition init_md5 :: "AssetEnv \<Rightarrow> Md5AssetsMap option \<Rightarrow> AssetLibrary \<Rightarrow> js_exception + AssetLibrary" where
  "init_md5 env md5 lib =
     (case md5 of
        None \<Rightarrow> Inr lib
      | Some m \<Rightarrow>
     (case md5_import m of
        None \<Rightarrow> Inr lib
      | Some importEntries \<Rightarrow>
     (case md5Entries_loop env importEntries of
        Inl e \<Rightarrow> Inl e
      | Inr md5ImportMap \<Rightarrow>
     (case md5_raw_assets m of
        None \<Rightarrow> Inl TypeError
      | Some rawEntries \<Rightarrow>
     (case md5Entries_loop env rawEntries of
        Inl e \<Rightarrow> Inl e
      | Inr md5RawAssetsMap \<Rightarrow>
          Inr (lib\<lparr>loaderCalls := loaderCalls lib
                 @ [InsertMD5Pipe md5ImportMap md5RawAssetsMap (u_libraryBase lib)]\<rparr>))))))"

text \<open>The body of the inner loop over the raw assets of one mount point.\<close>

definition init_rawAsset ::
  "AssetEnv \<Rightarrow> jsstring \<Rightarrow> jsstring \<Rightarrow> RawAssetInfo \<Rightarrow> AssetLibrary \<Rightarrow> AssetLibrary" where
  "init_rawAsset env mountPoint uuid info lib =
     (let path = info0_url info;
          typeId = info1_typeId info
      in case getClassById env typeId of
           None \<Rightarrow> lib\<lparr>debugLog := debugLog lib @ [DebugError [js ''Cannot get'', typeId]]\<rparr>
         | Some ty \<Rightarrow>
             (let lib = lib\<lparr>u_uuidToRawAsset := (u_uuidToRawAsset lib)
                          (uuid \<mapsto> \<lparr> url = mountPoint @ js ''/'' @ path, type = ty \<rparr>)\<rparr>;
                  isSubAsset = info2_isSubAsset info;
                  table = (case u_assetTables lib mountPoint of None \<Rightarrow> [] | Some t \<Rightarrow> t)
              in lib\<lparr>u_assetTables := (u_assetTables lib)
                       (mountPoint \<mapsto> AssetTable_add path uuid ty (\<not> isSubAsset) table)\<rparr>))"

fun init_mountPoint ::
  "AssetEnv \<Rightarrow> jsstring \<Rightarrow> (jsstring \<times> RawAssetInfo) list \<Rightarrow> AssetLibrary \<Rightarrow> AssetLibrary" where
  "init_mountPoint env mountPoint [] lib = lib"
| "init_mountPoint env mountPoint ((uuid, info) # assets) lib =
     init_mountPoint env mountPoint assets (init_rawAsset env mountPoint uuid info lib)"

fun init_rawAssets ::
  "AssetEnv \<Rightarrow> (jsstring \<times> (jsstring \<times> RawAssetInfo) list) list \<Rightarrow> AssetLibrary \<Rightarrow> AssetLibrary" where
  "init_rawAssets env [] lib = lib"
| "init_rawAssets env ((mountPoint, assets) # mounts) lib =
     init_rawAssets env mounts (init_mountPoint env mountPoint assets lib)"

text \<open>
  \<open>init\<close>. It returns the module after the call, and the exception if the call threw.
\<close>

definition init :: "AssetEnv \<Rightarrow> InitOptions \<Rightarrow> AssetLibrary \<Rightarrow> AssetLibrary \<times> js_exception option" where
  "init env options lib =
     (if EDITOR env \<and> u_libraryBase lib \<noteq> [] then
        (lib\<lparr>debugLog := debugLog lib @ [ErrorID 6402]\<rparr>, None)
      else
        (let path = map (\<lambda>c. if c = jc CHR 0x5C then jc CHR ''/'' else c) (libraryPath options);
             lib = lib\<lparr>u_libraryBase := stripSep env path @ js ''/''\<rparr>;
             lib = lib\<lparr>u_rawAssetsBase := rawAssetsBase options\<rparr>
         in case init_md5 env (md5AssetsMap options) lib of
              Inl e \<Rightarrow> (lib, Some e)
            | Inr lib \<Rightarrow>
                (let lib = (case subPackages options of
                              None \<Rightarrow> lib
                            | Some sp \<Rightarrow>
                                lib\<lparr>loaderCalls := loaderCalls lib @ [SetSubPackages sp, InsertSubPackPipe sp]\<rparr>);
                     lib = lib\<lparr>u_assetTables := map_option AssetTable_reset \<circ> u_assetTables lib\<rparr>;
                     lib = (case rawAssets options of
                              None \<Rightarrow> lib
                            | Some mounts \<Rightarrow> init_rawAssets env mounts lib);
                     lib = (case packedAssets options of
                              None \<Rightarrow> lib
                            | Some packs \<Rightarrow> lib\<lparr>loaderCalls := loaderCalls lib @ [InitPacks packs]\<rparr>);
                     fallback = u_rawAssetsBase lib @ js ''assets'';
                     root = (case mountPaths options of
                               None \<Rightarrow> fallback
                             | Some paths \<Rightarrow>
                                 (case mount_assets paths of
                                    None \<Rightarrow> fallback
                                  | Some a \<Rightarrow> if a \<noteq> [] then a else fallback))
                 in (lib\<lparr>loaderCalls := loaderCalls lib @ [UrlInit root]\<rparr>, None))))"

subsection \<open>The words of the specification\<close>

text \<open>
  A segment percent-encoded by \<open>encodeURIComponent\<close> (where that returns); the
  processed uuid, each \<open>@\<close>-separated segment encoded and the segments rejoined with
  \<open>@\<close>; and the concatenation of a base, the first two characters of the processed
  uuid, a slash, and the processed uuid.
\<close>

definition percentEncoded :: "jsstring \<Rightarrow> jsstring" where
  "percentEncoded seg = (case encodeURIComponent seg of Inr r \<Rightarrow> r | Inl e \<Rightarrow> [])"

definition processedUuid :: "jsstring \<Rightarrow> jsstring" where
  "processedUuid uuid = join (jc CHR ''@'') (map percentEncoded (split (jc CHR ''@'') uuid))"

definition libUrlNoExt :: "jsstring \<Rightarrow> jsstring \<Rightarrow> jsstring" where
  "libUrlNoExt base uuid = base @ take 2 (processedUuid uuid) @ js ''/'' @ processedUuid uuid"

text \<open>
  What the loader handed over is a \<open>SceneAsset\<close> whose \<open>scene\<close> is missing.
\<close>

fun corruptedScene :: "Asset nullable \<Rightarrow> bool" where
  "corruptedScene (JsObject a) = (isSceneAsset a \<and> \<not> scene a)"
| "corruptedScene _ = False"

text \<open>
  The uuid is a key of the raw-asset map and the type stored under it is not a subclass
  of \<open>Asset\<close>.
\<close>

definition isRawAssetUuid :: "AssetEnv \<Rightarrow> AssetLibrary \<Rightarrow> jsstring \<Rightarrow> bool" where
  "isRawAssetUuid env lib uuid =
     (case u_uuidToRawAsset lib uuid of
        None \<Rightarrow> False
      | Some entry \<Rightarrow> \<not> isChildClassOfAsset env (type entry))"

text \<open>The entries of \<open>options.rawAssets\<close>, in the order the two nested loops visit them.\<close>

definition rawAssetEntries ::
  "(jsstring \<times> (jsstring \<times> RawAssetInfo) list) list \<Rightarrow> (jsstring \<times> jsstring \<times> RawAssetInfo) list" where
  "rawAssetEntries mounts =
     concat (map (\<lambda>(mountPoint, assets). map (\<lambda>(uuid, info). (mountPoint, uuid, info)) assets) mounts)"

subsection \<open>A module and an environment to evaluate on\<close>

text \<open>
  A build (\<open>BUILD\<close> set, not the editor) whose \<open>decodeUuid\<close> leaves a uuid as it is,
  with the two classes \<open>cc.Texture2D\<close> (an asset class) and \<open>cc.RawFile\<close> (not one)
  registered under their names.
\<close>

definition demo_assetEnv :: AssetEnv where
  "demo_assetEnv =
     \<lparr> EDITOR = False, TEST = False, BUILD = True,
       decodeUuid = (\<lambda>u. u),
       getClassById = (\<lambda>i. if i = js ''cc.Texture2D'' then Some (Ctor ''cc.Texture2D'')
                            else if i = js ''cc.RawFile'' then Some (Ctor ''cc.RawFile'') else None),
       getClassByName = (\<lambda>i. None),
       isChildClassOfAsset = (\<lambda>c. c = Ctor ''cc.Texture2D''),
       stripSep = (\<lambda>p. p) \<rparr>"

text \<open>
  Three raw assets under the mount point \<open>assets\<close>; the type id of the second is not
  registered.
\<close>

definition demo_mounts :: "(jsstring \<times> (jsstring \<times> RawAssetInfo) list) list" where
  "demo_mounts =
     [(js ''assets'',
        [(js ''a1'', \<lparr> info0_url = js ''img/a.png'', info1_typeId = js ''cc.Texture2D'',
                       info2_isSubAsset = False \<rparr>),
         (js ''b2'', \<lparr> info0_url = js ''x.bin'', info1_typeId = js ''cc.Missing'',
                       info2_isSubAsset = False \<rparr>),
         (js ''c3'', \<lparr> info0_url = js ''data/c.raw'', info1_typeId = js ''cc.RawFile'',
                       info2_isSubAsset = True \<rparr>)])]"

definition demo_options :: InitOptions where
  "demo_options =
     \<lparr> libraryPath = js ''res/import'',
       rawAssetsBase = js ''res/raw-'',
       md5AssetsMap = None,
       subPackages = None,
       rawAssets = Some demo_mounts,
       packedAssets = None,
       mountPaths = None \<rparr>"

definition demo_library :: AssetLibrary where
  "demo_library = fst (init demo_assetEnv demo_options (new_AssetLibrary Map.empty))"

text \<open>The editor.\<close>

definition demo_editorEnv :: AssetEnv where
  "demo_editorEnv = demo_assetEnv\<lparr>EDITOR := True, BUILD := False\<rparr>"

text \<open>The same engine when it is not a build: \<open>decodeUuid\<close> is not called.\<close>

definition demo_previewEnv :: AssetEnv where
  "demo_previewEnv = demo_assetEnv\<lparr>BUILD := False\<rparr>"

section \<open>Properties of SubContextView\<close>

subsection \<open>What each method leaves alone\<close>



lemma updateSubContextTexture_messages:
  "messages (updateSubContextTexture s) = messages s"
  by (simp add: updateSubContextTexture_def messages_def Let_def split: option.splits)



lemma messages_updatedTime: "messages (s\<lparr>u_updatedTime := t\<rparr>) = messages s"
  by (simp add: messages_def)

lemma update_messages: "messages (update dt now s) = messages s"
  by (simp add: update_def Let_def updateSubContextTexture_messages messages_updatedTime)





subsection \<open>The update interval after loading\<close>






text \<open>Evaluation: the operators, and the loaded component.\<close>

lemma js_div_Fin:
  "js_div (Fin a) (Fin b) =
     (if b = 0 then (if a = 0 then NaN else js_inf (a < 0))
      else if a = 0 then js_zero (b < 0) else toDouble (a / b))"
  by (simp add: js_div_def)

lemma js_mul_Fin:
  "js_mul (Fin a) (Fin b) =
     (if a = 0 \<or> b = 0 then js_zero ((a < 0) \<noteq> (b < 0)) else toDouble (a * b))"
  by (simp add: js_mul_def)

lemma js_sub_Fin: "js_sub (Fin a) (Fin b) = (if b = 0 then Fin a else toDouble (a - b))"
  by (simp add: js_sub_def)

lemma toDouble_nonzero:
  "r \<noteq> 0 \<Longrightarrow> toDouble r =
     (let e = max (ilog2 \<bar>r\<bar> - 52) (- 1074);
          m = roundHalfEven (\<bar>r\<bar> / pow2 e);
          v = of_int m * pow2 e
      in if m = 0 then js_zero (r < 0)
         else if 2 ^ 1024 \<le> v then js_inf (r < 0)
         else Fin (if r < 0 then - v else v))"
  by (simp add: toDouble_def)

lemma toDouble_zero: "toDouble 0 = Fin 0"
  by (simp add: toDouble_def)

lemma ilog2_up_less: "a < 2 \<Longrightarrow> ilog2_up a = 0"
  by (simp add: ilog2_up.simps)

lemma ilog2_up_halve: "2 \<le> a \<Longrightarrow> ilog2_up a = 1 + ilog2_up (a / 2)"
  by (subst ilog2_up.simps) simp

lemma ilog2_down_done: "1 \<le> a \<Longrightarrow> ilog2_down a = 0"
  by (simp add: ilog2_down.simps)

lemma ilog2_down_double: "0 < a \<Longrightarrow> a < 1 \<Longrightarrow> ilog2_down a = ilog2_down (2 * a) - 1"
  by (subst ilog2_down.simps) simp

lemma ilog2_ge: "1 \<le> a \<Longrightarrow> ilog2 a = ilog2_up a"
  by (simp add: ilog2_def)

lemma ilog2_less: "a < 1 \<Longrightarrow> ilog2 a = ilog2_down a"
  by (simp add: ilog2_def)

lemmas js_eval =
  js_div_Fin js_mul_Fin js_sub_Fin js_gt_def js_le_def js_ge_def js_strict_eq_def js_zero_def
  js_inf_def toDouble_nonzero toDouble_zero ilog2_ge ilog2_less ilog2_up_less ilog2_up_halve
  ilog2_down_done ilog2_down_double pow2_def roundHalfEven_def Let_def

lemma demo_view_value:
  "demo_view =
     \<lparr> u_fps = Fin 60, u_sprite = ContentSprite,
       u_imageAsset = \<lparr> nativeData = SharedCanvas, u_texture = [Create (Fin 640) (Fin 960)] \<rparr>,
       u_updatedTime = Fin 0, u_updateInterval = Fin (4691249611844267 / 2 ^ 48),
       u_openDataContext = Some
         \<lparr> canvas = \<lparr> width = Fin 640, height = Fin 960 \<rparr>,
           posted = [\<lparr> width = Fin 50, height = Fin 50, x = Fin 10, y = Fin 20,
                       fromEngine = True, msg_type = ''engine'', event = ''viewport'' \<rparr>] \<rparr>,
       u_content = \<lparr> uiTransform = \<lparr> width = Fin 100, height = Fin 100 \<rparr>, listeners = [],
                     sprite = Some \<lparr> spriteFrame = Some \<lparr> texture = ImageAssetTexture \<rparr> \<rparr>,
                     parentIsNode = True \<rparr>,
       u_designResolutionSize = \<lparr> width = Fin 640, height = Fin 960 \<rparr>,
       node = \<lparr> uiTransform = \<lparr> width = Fin 200, height = Fin 100 \<rparr>, listeners = [] \<rparr>,
       enabled = True \<rparr>"
  by (simp add: demo_view_def demo_env_def onLoad_def new_SubContextView_def initSharedCanvas_def
      initContentNode_def updateSubContextView_def ImageAsset_reset_def postMessage_def js_eval)



subsection \<open>The frame-clock gate of \<open>update\<close>\<close>







subsection \<open>The two setters\<close>

text \<open>
  C9. Setting \<open>fps\<close> to a value different from the current one stores the value and sets
  \<open>_updateInterval\<close> to \<open>1000 / value\<close>; setting it to the current value changes
  nothing. Different is the source's \<^verbatim>\<open>===\<close> failing, so \<open>NaN\<close> is different from
  itself and \<open>-0\<close> is not different from \<open>0\<close>; the quotient is the double nearest to
  the exact one, an infinity for a zero (\<open>-Infinity\<close> for \<open>-0\<close>). A component
  that has not been loaded has \<open>_updateInterval = 0\<close>, and assigning the default 60 to
  its \<open>fps\<close> leaves the interval at 0.
\<close>

theorem set_fps_effect:
  "(\<not> js_strict_eq (u_fps s) v \<longrightarrow>
      set_fps v s = s\<lparr>u_fps := v, u_updateInterval := js_div (Fin 1000) v\<rparr>)
   \<and> (js_strict_eq (u_fps s) v \<longrightarrow> set_fps v s = s)
   \<and> set_fps (Fin 60) (new_SubContextView now n c) = new_SubContextView now n c
   \<and> u_updateInterval (set_fps (Fin 60) (new_SubContextView now n c)) = Fin 0"
  by (simp add: set_fps_def new_SubContextView_def js_strict_eq_def)

theorem set_fps_effect_witness:
  "\<not> js_strict_eq (u_fps demo_view) (Fin 30)
   \<and> u_fps (set_fps (Fin 30) demo_view) = Fin 30
   \<and> u_updateInterval (set_fps (Fin 30) demo_view) = Fin (4691249611844267 / 2 ^ 47)
   \<and> \<not> js_strict_eq (u_fps demo_view) NZero
   \<and> u_updateInterval (set_fps NZero demo_view) = NInf
   \<and> u_updateInterval (set_fps (Fin 0) demo_view) = PInf
   \<and> js_strict_eq (u_fps demo_view) (Fin 60)
   \<and> set_fps (Fin 60) demo_view = demo_view
   \<and> js_strict_eq (u_fps (set_fps (Fin 0) demo_view)) NZero
   \<and> set_fps NZero (set_fps (Fin 0) demo_view) = set_fps (Fin 0) demo_view"
proof -
  have fps: "u_fps demo_view = Fin 60"
    by (simp add: demo_view_value)
  have differs: "\<not> js_strict_eq (u_fps demo_view) (Fin 30)"
    by (simp add: fps js_strict_eq_def)
  have negzero: "\<not> js_strict_eq (u_fps demo_view) NZero"
    by (simp add: fps js_strict_eq_def)
  have zero: "\<not> js_strict_eq (u_fps demo_view) (Fin 0)"
    by (simp add: fps js_strict_eq_def)
  have same: "js_strict_eq (u_fps demo_view) (Fin 60)"
    by (simp add: fps js_strict_eq_def)
  have a: "set_fps (Fin 30) demo_view
      = demo_view\<lparr>u_fps := Fin 30, u_updateInterval := js_div (Fin 1000) (Fin 30)\<rparr>"
    using set_fps_effect [of demo_view "Fin 30"] differs by blast
  have b: "set_fps (Fin 60) demo_view = demo_view"
    using set_fps_effect [of demo_view "Fin 60"] same by blast
  have n: "set_fps NZero demo_view
      = demo_view\<lparr>u_fps := NZero, u_updateInterval := js_div (Fin 1000) NZero\<rparr>"
    using set_fps_effect [of demo_view NZero] negzero by blast
  have z: "set_fps (Fin 0) demo_view
      = demo_view\<lparr>u_fps := Fin 0, u_updateInterval := js_div (Fin 1000) (Fin 0)\<rparr>"
    using set_fps_effect [of demo_view "Fin 0"] zero by blast
  have c: "u_fps (set_fps (Fin 30) demo_view) = Fin 30"
    by (simp add: a)
  have d: "u_updateInterval (set_fps (Fin 30) demo_view) = Fin (4691249611844267 / 2 ^ 47)"
    by (simp add: a js_eval)
  have e: "u_updateInterval (set_fps NZero demo_view) = NInf"
    by (simp add: n js_div_def js_inf_def)
  have f: "u_updateInterval (set_fps (Fin 0) demo_view) = PInf"
    by (simp add: z js_div_def js_inf_def)
  have g: "js_strict_eq (u_fps (set_fps (Fin 0) demo_view)) NZero"
    by (simp add: z js_strict_eq_def)
  have h: "set_fps NZero (set_fps (Fin 0) demo_view) = set_fps (Fin 0) demo_view"
    using set_fps_effect [of "set_fps (Fin 0) demo_view" NZero] g by blast
  from differs c d negzero e f same b g h show ?thesis
    by (intro conjI)
qed

text \<open>
  C8. Outside the editor an assignment to \<open>designResolutionSize\<close> changes nothing,
  whatever the value. In the editor an assignment of a value equal to the stored size
  changes nothing, and an assignment of any other value stores it.
\<close>

theorem set_designResolutionSize_effect:
  "(\<not> EDITOR env \<longrightarrow> set_designResolutionSize env v s = s)
   \<and> (EDITOR env \<and> Size_equals v (u_designResolutionSize s) \<longrightarrow>
        set_designResolutionSize env v s = s)
   \<and> (EDITOR env \<and> \<not> Size_equals v (u_designResolutionSize s) \<longrightarrow>
        set_designResolutionSize env v s = s\<lparr>u_designResolutionSize := v\<rparr>)"
  by (simp add: set_designResolutionSize_def Size_set_def)

theorem set_designResolutionSize_effect_witness:
  "\<not> EDITOR demo_env
   \<and> set_designResolutionSize demo_env \<lparr> width = Fin 320, height = Fin 480 \<rparr> demo_view = demo_view
   \<and> EDITOR (demo_env\<lparr>EDITOR := True\<rparr>)
   \<and> Size_equals \<lparr> width = Fin 640, height = Fin 960 \<rparr> (u_designResolutionSize demo_view)
   \<and> set_designResolutionSize (demo_env\<lparr>EDITOR := True\<rparr>) \<lparr> width = Fin 640, height = Fin 960 \<rparr> demo_view
       = demo_view
   \<and> \<not> Size_equals \<lparr> width = Fin 320, height = Fin 480 \<rparr> (u_designResolutionSize demo_view)
   \<and> u_designResolutionSize
        (set_designResolutionSize (demo_env\<lparr>EDITOR := True\<rparr>) \<lparr> width = Fin 320, height = Fin 480 \<rparr> demo_view)
       = \<lparr> width = Fin 320, height = Fin 480 \<rparr>"
proof -
  have runtime: "\<not> EDITOR demo_env"
    by (simp add: demo_env_def)
  have editor: "EDITOR (demo_env\<lparr>EDITOR := True\<rparr>)"
    by simp
  have same: "Size_equals \<lparr> width = Fin 640, height = Fin 960 \<rparr> (u_designResolutionSize demo_view)"
    by (simp add: demo_view_value Size_equals_def js_strict_eq_def)
  have differs: "\<not> Size_equals \<lparr> width = Fin 320, height = Fin 480 \<rparr> (u_designResolutionSize demo_view)"
    by (simp add: demo_view_value Size_equals_def js_strict_eq_def)
  have a: "set_designResolutionSize demo_env \<lparr> width = Fin 320, height = Fin 480 \<rparr> demo_view = demo_view"
    using set_designResolutionSize_effect [of demo_env "\<lparr> width = Fin 320, height = Fin 480 \<rparr>" demo_view]
      runtime by blast
  have b: "set_designResolutionSize (demo_env\<lparr>EDITOR := True\<rparr>) \<lparr> width = Fin 640, height = Fin 960 \<rparr> demo_view
       = demo_view"
    using set_designResolutionSize_effect
      [of "demo_env\<lparr>EDITOR := True\<rparr>" "\<lparr> width = Fin 640, height = Fin 960 \<rparr>" demo_view]
      editor same by blast
  have c: "set_designResolutionSize (demo_env\<lparr>EDITOR := True\<rparr>) \<lparr> width = Fin 320, height = Fin 480 \<rparr> demo_view
       = demo_view\<lparr>u_designResolutionSize := \<lparr> width = Fin 320, height = Fin 480 \<rparr>\<rparr>"
    using set_designResolutionSize_effect
      [of "demo_env\<lparr>EDITOR := True\<rparr>" "\<lparr> width = Fin 320, height = Fin 480 \<rparr>" demo_view]
      editor differs by blast
  have d: "u_designResolutionSize
        (set_designResolutionSize (demo_env\<lparr>EDITOR := True\<rparr>) \<lparr> width = Fin 320, height = Fin 480 \<rparr> demo_view)
       = \<lparr> width = Fin 320, height = Fin 480 \<rparr>"
    by (simp add: c)
  from runtime a editor same b differs d show ?thesis
    by (intro conjI)
qed

subsection \<open>Who posts messages to the open data context\<close>

lemma run_updates_messages:
  "list_all isUpdate cs \<Longrightarrow> messages (run env cs s) = messages s"
proof (induction cs arbitrary: s)
  case Nil
  then show ?case by simp
next
  case (Cons c cs)
  then obtain dt now where "c = Update dt now"
    by (cases c) simp_all
  with Cons show ?case
    by (simp add: update_messages)
qed

lemma updateSubContextView_posts_one:
  assumes "u_openDataContext s = Some ctx" and "globalAdapter env = Some adapter"
    and "getSystemInfoSync adapter = Some info"
  shows "\<exists>m. messages (updateSubContextView env s) = messages s @ [m]"
  using assms by (simp add: updateSubContextView_def messages_def postMessage_def Let_def)

lemma demo_frames_value:
  "run demo_env demo_frames demo_view =
     demo_view\<lparr>u_updatedTime := Fin 50,
       u_imageAsset := \<lparr> nativeData = SharedCanvas,
         u_texture = [Create (Fin 640) (Fin 960), UploadData, UploadData, UploadData] \<rparr>\<rparr>"
  by (simp add: demo_frames_def demo_view_value update_def updateSubContextTexture_def
      ImageAsset_width_def ImageAsset_height_def ImageAsset_reset_def js_eval)

text \<open>
  C2, as the spec states it, fails: the frame loop posts nothing. Over three frames at
  which the gate opens, the texture is uploaded three times and the list of posted
  messages is the one \<open>onLoad\<close> left.
\<close>

theorem update_posts_counterexample:
  "u_texture (u_imageAsset (run demo_env demo_frames demo_view))
     = u_texture (u_imageAsset demo_view) @ [UploadData, UploadData, UploadData]
   \<and> messages (run demo_env demo_frames demo_view) = messages demo_view
   \<and> length (messages demo_view) = 1"
  by (simp add: demo_frames_value) (simp add: demo_view_value messages_def)

text \<open>
  C2, amended. \<open>postMessage\<close> is called by \<open>_updateSubContextView\<close> only. \<open>update\<close>
  never posts, for any \<open>dt\<close> and over any number of frames. \<open>_updateSubContextView\<close>
  posts exactly one message when the open data context is set and the adapter has
  \<open>getSystemInfoSync\<close>; it runs at the end of \<open>onLoad\<close>, and at each
  \<open>TRANSFORM_CHANGED\<close> or \<open>SIZE_CHANGED\<close> event of the node while it is registered
  (from \<open>onEnable\<close> to \<open>onDisable\<close>).
\<close>

theorem postMessage_event_driven:
  "messages (update dt now s) = messages s
   \<and> (list_all isUpdate cs \<longrightarrow> messages (run env cs s) = messages s)
   \<and> (u_openDataContext s = Some ctx \<and> globalAdapter env = Some adapter
        \<and> getSystemInfoSync adapter = Some info
        \<longrightarrow> (\<exists>m. messages (updateSubContextView env s) = messages s @ [m]))
   \<and> (globalAdapter env = Some adapter \<and> getOpenDataContext adapter = Some (Some ctx)
        \<and> getSystemInfoSync adapter = Some info
        \<longrightarrow> (\<exists>m. messages (onLoad env s) = posted ctx @ [m]))
   \<and> emit env ev (onEnable s) = updateSubContextView env (onEnable s)
   \<and> emit env ev (onDisable s) = onDisable s"
proof (intro conjI impI)
  show "messages (update dt now s) = messages s"
    by (rule update_messages)
  show "messages (run env cs s) = messages s" if "list_all isUpdate cs"
    using that by (rule run_updates_messages)
  show "\<exists>m. messages (updateSubContextView env s) = messages s @ [m]"
    if "u_openDataContext s = Some ctx \<and> globalAdapter env = Some adapter
        \<and> getSystemInfoSync adapter = Some info"
    using that updateSubContextView_posts_one by blast
  show "\<exists>m. messages (onLoad env s) = posted ctx @ [m]"
    if a: "globalAdapter env = Some adapter \<and> getOpenDataContext adapter = Some (Some ctx)
        \<and> getSystemInfoSync adapter = Some info"
  proof -
    let ?s = "initContentNode (initSharedCanvas
        (s\<lparr>u_updateInterval := js_div (Fin 1000) (u_fps s), u_openDataContext := Some ctx\<rparr>))"
    have l: "onLoad env s = updateSubContextView env ?s"
      using a by (simp add: onLoad_def Let_def)
    have "\<exists>c. u_openDataContext ?s = Some c \<and> posted c = posted ctx"
      by (simp add: initContentNode_def initSharedCanvas_def Let_def)
    then obtain c where c: "u_openDataContext ?s = Some c" "posted c = posted ctx"
      by blast
    then have "messages ?s = posted ctx"
      by (simp add: messages_def)
    with updateSubContextView_posts_one [OF c(1), of env adapter info] a l show ?thesis
      by simp
  qed
  show "emit env ev (onEnable s) = updateSubContextView env (onEnable s)"
    by (cases ev) (simp_all add: emit_def onEnable_def registerNodeEvent_def)
  show "emit env ev (onDisable s) = onDisable s"
    by (cases ev) (simp_all add: emit_def onDisable_def unregisterNodeEvent_def)
qed

theorem postMessage_event_driven_witness:
  "list_all isUpdate demo_frames
   \<and> messages (run demo_env demo_frames demo_view) = messages demo_view
   \<and> length (messages demo_view) = 1
   \<and> length (messages (updateSubContextView demo_env demo_view)) = 2
   \<and> length (messages (emit demo_env SIZE_CHANGED (onEnable demo_view))) = 2
   \<and> length (messages (emit demo_env SIZE_CHANGED (onDisable demo_view))) = 1"
proof -
  let ?adapter = "\<lparr> getOpenDataContext = Some (Some \<lparr> canvas = \<lparr> width = Fin 0, height = Fin 0 \<rparr>, posted = [] \<rparr>),
      getSystemInfoSync = Some \<lparr> screenWidth = Fin 300, screenHeight = Fin 600 \<rparr> \<rparr>"
  let ?ctx = "\<lparr> canvas = \<lparr> width = Fin 640, height = Fin 960 \<rparr>,
      posted = [\<lparr> width = Fin 50, height = Fin 50, x = Fin 10, y = Fin 20,
                  fromEngine = True, msg_type = ''engine'', event = ''viewport'' \<rparr>] \<rparr>"
  let ?node = "\<lparr> uiTransform = \<lparr> width = Fin 200, height = Fin 100 \<rparr>, listeners = [] \<rparr>"
  have env: "globalAdapter demo_env = Some ?adapter"
      "getOpenDataContext ?adapter = Some (Some \<lparr> canvas = \<lparr> width = Fin 0, height = Fin 0 \<rparr>, posted = [] \<rparr>)"
      "getSystemInfoSync ?adapter = Some \<lparr> screenWidth = Fin 300, screenHeight = Fin 600 \<rparr>"
    by (simp_all add: demo_env_def)
  have ctx: "u_openDataContext demo_view = Some ?ctx"
    by (simp add: demo_view_value)
  have one: "length (messages demo_view) = 1"
    by (simp add: demo_view_value messages_def)
  have "\<exists>m. messages (updateSubContextView demo_env demo_view) = messages demo_view @ [m]"
    using postMessage_event_driven [where s = demo_view and env = demo_env and ctx = ?ctx
        and adapter = ?adapter and info = "\<lparr> screenWidth = Fin 300, screenHeight = Fin 600 \<rparr>"]
      ctx env by blast
  with one have two: "length (messages (updateSubContextView demo_env demo_view)) = 2"
    by auto
  have "\<exists>m. messages (onLoad demo_env (new_SubContextView (Fin 0) ?node \<lparr> width = Fin 100, height = Fin 100 \<rparr>))
      = posted \<lparr> canvas = \<lparr> width = Fin 0, height = Fin 0 \<rparr>, posted = [] \<rparr> @ [m]"
    using postMessage_event_driven [where env = demo_env and adapter = ?adapter
        and ctx = "\<lparr> canvas = \<lparr> width = Fin 0, height = Fin 0 \<rparr>, posted = [] \<rparr>"
        and info = "\<lparr> screenWidth = Fin 300, screenHeight = Fin 600 \<rparr>"
        and s = "new_SubContextView (Fin 0) ?node \<lparr> width = Fin 100, height = Fin 100 \<rparr>"]
      env by blast
  then have one': "length (messages demo_view) = 1"
    by (auto simp: demo_view_def)
  have frames: "list_all isUpdate demo_frames"
    by (simp add: demo_frames_def)
  note p = postMessage_event_driven [where s = demo_view and env = demo_env and cs = demo_frames
      and ev = SIZE_CHANGED]
  have a: "messages (run demo_env demo_frames demo_view) = messages demo_view"
    using p frames by blast
  have b: "emit demo_env SIZE_CHANGED (onEnable demo_view) = updateSubContextView demo_env (onEnable demo_view)"
    using p by blast
  have c: "emit demo_env SIZE_CHANGED (onDisable demo_view) = onDisable demo_view"
    using p by blast
  have d: "length (messages (updateSubContextView demo_env (onEnable demo_view))) = 2"
    by (simp add: demo_view_value demo_env_def updateSubContextView_def onEnable_def
        registerNodeEvent_def messages_def postMessage_def Let_def)
  have e: "length (messages (onDisable demo_view)) = 1"
    by (simp add: demo_view_value onDisable_def unregisterNodeEvent_def messages_def)
  from frames a one' two d e show ?thesis
    by (simp only: b c simp_thms)
qed
section \<open>Properties of the string functions\<close>

lemma surrogates_disjoint: "isLeadingSurrogate c \<Longrightarrow> \<not> isTrailingSurrogate c"
  by (auto simp: isLeadingSurrogate_def isTrailingSurrogate_def word_le_nat_alt)

lemma unreserved_not_surrogate:
  "isUnreserved c \<Longrightarrow> \<not> isLeadingSurrogate c \<and> \<not> isTrailingSurrogate c"
  by (auto simp: isUnreserved_def isLeadingSurrogate_def isTrailingSurrogate_def word_le_nat_alt)

lemma at_not_surrogate:
  "\<not> isLeadingSurrogate (jc CHR ''@'') \<and> \<not> isTrailingSurrogate (jc CHR ''@'')"
  by (simp add: jc_def isLeadingSurrogate_def isTrailingSurrogate_def)

text \<open>\<open>encodeURIComponent\<close> returns exactly on the well-formed strings, and throws only \<open>URIError\<close>.\<close>

lemma Encode_Cons:
  "\<not> isLeadingSurrogate c \<Longrightarrow>
   (\<exists>r. Encode (c # cs) = Inr r) = (\<not> isTrailingSurrogate c \<and> (\<exists>r. Encode cs = Inr r))"
  by (auto dest: unreserved_not_surrogate split: sum.splits)

lemma wellFormed_Cons:
  "\<not> isLeadingSurrogate c \<Longrightarrow> wellFormed (c # s) = (\<not> isTrailingSurrogate c \<and> wellFormed s)"
  by (cases s) simp_all

lemma Encode_wellFormed: "(\<exists>r. Encode s = Inr r) \<longleftrightarrow> wellFormed s"
proof (induction s rule: wellFormed.induct)
  case 1
  then show ?case by simp
next
  case (2 c)
  then show ?case
    by (auto dest: unreserved_not_surrogate)
next
  case (3 c d ds)
  show ?case
  proof (cases "isLeadingSurrogate c")
    case True
    then have "\<not> isUnreserved c" "\<not> isTrailingSurrogate c"
      using unreserved_not_surrogate surrogates_disjoint by blast+
    with True 3 show ?thesis
      by (auto split: sum.splits)
  next
    case False
    with 3(2) have "(\<exists>r. Encode (d # ds) = Inr r) = wellFormed (d # ds)"
      by simp
    with False show ?thesis
      by (simp del: Encode.simps wellFormed.simps add: Encode_Cons wellFormed_Cons)
  qed
qed

lemma Encode_throws: "Encode s = Inl e \<Longrightarrow> e = URIError"
  by (induction s arbitrary: e rule: Encode.induct) (auto split: if_splits sum.splits list.splits)

lemma encodeURIComponent_wellFormed:
  "wellFormed s \<Longrightarrow> encodeURIComponent s = Inr (percentEncoded s)"
  using Encode_wellFormed [of s] by (auto simp: percentEncoded_def encodeURIComponent_def)

lemma encodeURIComponent_illFormed:
  "\<not> wellFormed s \<Longrightarrow> encodeURIComponent s = Inl URIError"
  using Encode_wellFormed [of s] Encode_throws [of s]
  by (cases "Encode s") (auto simp: encodeURIComponent_def)

lemma map_throwing_wellFormed:
  "list_all wellFormed segs \<Longrightarrow>
   map_throwing encodeURIComponent segs = Inr (map percentEncoded segs)"
  by (induction segs) (simp_all add: encodeURIComponent_wellFormed)

lemma map_throwing_illFormed:
  "\<not> list_all wellFormed segs \<Longrightarrow> map_throwing encodeURIComponent segs = Inl URIError"
proof (induction segs)
  case Nil
  then show ?case by simp
next
  case (Cons seg segs)
  show ?case
  proof (cases "wellFormed seg")
    case True
    with Cons show ?thesis
      by (simp add: encodeURIComponent_wellFormed)
  next
    case False
    then show ?thesis
      by (simp add: encodeURIComponent_illFormed)
  qed
qed

text \<open>Splitting at a character that is no surrogate neither breaks nor makes a pair.\<close>

lemma split_not_Nil: "split sep s \<noteq> []"
  by (induction s) (auto split: list.splits)

lemma wellFormed_split:
  assumes "\<not> isLeadingSurrogate sep" and "\<not> isTrailingSurrogate sep"
  shows "list_all wellFormed (split sep s) = wellFormed s"
proof (induction s rule: wellFormed.induct)
  case 1
  then show ?case by simp
next
  case (2 c)
  then show ?case using assms by auto
next
  case (3 c d ds)
  obtain seg segs where ds: "split sep ds = seg # segs"
    using split_not_Nil [of sep ds] by (cases "split sep ds") auto
  show ?case
  proof (cases "isLeadingSurrogate c")
    case True
    then have c: "c \<noteq> sep" using assms by auto
    show ?thesis
    proof (cases "d = sep")
      case True
      with c \<open>isLeadingSurrogate c\<close> assms show ?thesis
        by (simp add: ds)
    next
      case False
      with c \<open>isLeadingSurrogate c\<close> 3(1) show ?thesis
        by (auto simp: ds)
    qed
  next
    case False
    obtain seg' segs' where dds: "split sep (d # ds) = seg' # segs'"
      using split_not_Nil [of sep "d # ds"] by (cases "split sep (d # ds)") auto
    from False 3(2) have ih: "list_all wellFormed (split sep (d # ds)) = wellFormed (d # ds)"
      by simp
    show ?thesis
    proof (cases "c = sep")
      case True
      have "split sep (sep # d # ds) = [] # split sep (d # ds)"
        by (simp del: split.simps add: split.simps(2) [of sep sep])
      with True assms ih show ?thesis
        by (simp del: split.simps wellFormed.simps(3) add: wellFormed_Cons)
    next
      case c: False
      have "split sep (c # d # ds) = (c # seg') # segs'"
        using c dds by (simp del: split.simps add: split.simps(2) [of sep c])
      with False ih dds show ?thesis
        by (simp del: split.simps wellFormed.simps add: wellFormed_Cons)
    qed
  qed
qed

lemma join_split: "join sep (split sep s) = s"
proof (induction s)
  case Nil
  then show ?case by simp
next
  case (Cons c cs)
  obtain seg segs where cs: "split sep cs = seg # segs"
    using split_not_Nil [of sep cs] by (cases "split sep cs") auto
  with Cons show ?case
    by (cases segs) auto
qed

lemma split_segments:
  "seg \<in> set (split sep s) \<Longrightarrow> set seg \<subseteq> set s - {sep}"
proof (induction s arbitrary: seg)
  case Nil
  then show ?case by simp
next
  case (Cons c cs)
  obtain seg' segs where cs: "split sep cs = seg' # segs"
    using split_not_Nil [of sep cs] by (cases "split sep cs") auto
  from Cons.IH [of seg'] cs have seg': "set seg' \<subseteq> set cs - {sep}"
    by simp
  from Cons.IH cs have segs: "\<And>t. t \<in> set segs \<Longrightarrow> set t \<subseteq> set cs - {sep}"
    by simp
  show ?case
  proof (cases "c = sep")
    case True
    with Cons.prems cs seg' segs show ?thesis
      by auto
  next
    case False
    with Cons.prems cs have "seg = c # seg' \<or> seg \<in> set segs"
      by auto
    with False seg' segs show ?thesis
      by auto
  qed
qed

lemma Encode_unreserved: "list_all isUnreserved s \<Longrightarrow> Encode s = Inr s"
  by (induction s) simp_all

text \<open>
  A uuid made of letters, digits, \<^verbatim>\<open>-_.!~*'()\<close> and \<open>@\<close> only (every uuid the
  engine makes is one) is its own processed uuid.
\<close>

lemma processedUuid_plain:
  assumes "list_all (\<lambda>c. isUnreserved c \<or> c = jc CHR ''@'') uuid"
  shows "processedUuid uuid = uuid"
proof -
  have "percentEncoded seg = seg" if "seg \<in> set (split (jc CHR ''@'') uuid)" for seg
  proof -
    from split_segments [OF that] assms have "list_all isUnreserved seg"
      by (auto simp: list_all_iff)
    then show ?thesis
      by (simp add: percentEncoded_def encodeURIComponent_def Encode_unreserved)
  qed
  then have "map percentEncoded (split (jc CHR ''@'') uuid) = split (jc CHR ''@'') uuid"
    by (simp add: map_idI)
  then show ?thesis
    by (simp add: processedUuid_def join_split)
qed

text \<open>The expression the source repeats, on a well-formed and on an ill-formed string.\<close>

lemma encodeSegments_wellFormed:
  "wellFormed uuid \<Longrightarrow> encodeSegments uuid = Inr (processedUuid uuid)"
  using wellFormed_split [of "jc CHR ''@''" uuid] at_not_surrogate
  by (simp add: encodeSegments_def processedUuid_def map_throwing_wellFormed)

lemma encodeSegments_illFormed:
  "\<not> wellFormed uuid \<Longrightarrow> encodeSegments uuid = Inl URIError"
  using wellFormed_split [of "jc CHR ''@''" uuid] at_not_surrogate
  by (simp add: encodeSegments_def map_throwing_illFormed)

section \<open>Properties of AssetLibrary\<close>

subsection \<open>\<open>getLibUrlNoExt\<close>\<close>

text \<open>
  C3, as the spec states it, fails: not every string has a URL. On the string of one
  unpaired surrogate \<open>encodeURIComponent\<close> throws, and so does \<open>getLibUrlNoExt\<close>.
\<close>

theorem getLibUrlNoExt_counterexample:
  "getLibUrlNoExt demo_previewEnv demo_library [0xD800] False = Inl URIError"
  by (simp add: getLibUrlNoExt_def demo_previewEnv_def demo_assetEnv_def encodeSegments_def
      encodeURIComponent_def jc_def isUnreserved_def isTrailingSurrogate_def isLeadingSurrogate_def)

text \<open>
  C3, amended. Let \<open>u\<close> be the uuid, in a build after \<open>decodeUuid\<close>. If \<open>u\<close> is
  well-formed UTF-16, \<open>getLibUrlNoExt\<close> returns the concatenation of the base, the first
  two characters of the processed uuid, a slash and the processed uuid, and appends
  nothing; the processed uuid is \<open>u\<close> with each \<open>@\<close>-separated segment percent-encoded
  by \<open>encodeURIComponent\<close>, rejoined with \<open>@\<close>; the base is
  \<open>_rawAssetsBase + 'assets/'\<close> in a build with \<open>inRawAssetsDir\<close>, and
  \<open>_libraryBase\<close> otherwise. If \<open>u\<close> has an unpaired surrogate, the call throws
  \<open>URIError\<close>.
\<close>

theorem getLibUrlNoExt_url:
  "(wellFormed (if BUILD env then decodeUuid env uuid else uuid) \<longrightarrow>
      getLibUrlNoExt env lib uuid inRawAssetsDir =
        Inr (libUrlNoExt
              (if BUILD env \<and> inRawAssetsDir then u_rawAssetsBase lib @ js ''assets/''
               else u_libraryBase lib)
              (if BUILD env then decodeUuid env uuid else uuid)))
   \<and> (\<not> wellFormed (if BUILD env then decodeUuid env uuid else uuid) \<longrightarrow>
      getLibUrlNoExt env lib uuid inRawAssetsDir = Inl URIError)"
  by (simp add: getLibUrlNoExt_def libUrlNoExt_def encodeSegments_wellFormed
      encodeSegments_illFormed)

lemma demo_library_value:
  "demo_library =
     \<lparr> u_libraryBase = js ''res/import/'',
       u_rawAssetsBase = js ''res/raw-'',
       u_uuidToRawAsset =
         [js ''a1'' \<mapsto> \<lparr> url = js ''assets/img/a.png'', type = Ctor ''cc.Texture2D'' \<rparr>,
          js ''c3'' \<mapsto> \<lparr> url = js ''assets/data/c.raw'', type = Ctor ''cc.RawFile'' \<rparr>],
       u_uuidToAsset = Map.empty,
       u_assetTables =
         [js ''assets'' \<mapsto>
            [\<lparr> entry_url = js ''img/a.png'', entry_uuid = js ''a1'',
                entry_type = Ctor ''cc.Texture2D'', isMainAsset = True \<rparr>,
             \<lparr> entry_url = js ''data/c.raw'', entry_uuid = js ''c3'',
                entry_type = Ctor ''cc.RawFile'', isMainAsset = False \<rparr>]],
       loaderCalls = [UrlInit (js ''res/raw-assets'')],
       debugLog = [DebugError [js ''Cannot get'', js ''cc.Missing'']] \<rparr>"
  by (simp add: demo_library_def init_def new_AssetLibrary_def demo_options_def demo_mounts_def
      demo_assetEnv_def init_md5_def init_rawAsset_def AssetTable_add_def AssetTable_reset_def Let_def js_def jc_def)

lemma demo_library_bases:
  "u_libraryBase demo_library = js ''res/import/'' \<and> u_rawAssetsBase demo_library = js ''res/raw-''"
  by (simp add: demo_library_value)

theorem getLibUrlNoExt_url_witness:
  "wellFormed (js ''fc991dd7-0033@6c 8a'')
   \<and> getLibUrlNoExt demo_assetEnv demo_library (js ''fc991dd7-0033@6c 8a'') True
       = Inr (js ''res/raw-assets/fc/fc991dd7-0033@6c%208a'')
   \<and> getLibUrlNoExt demo_previewEnv demo_library (js ''fc991dd7-0033@6c 8a'') True
       = Inr (js ''res/import/fc/fc991dd7-0033@6c%208a'')
   \<and> \<not> wellFormed [0x61, 0xDC00]
   \<and> getLibUrlNoExt demo_assetEnv demo_library [0x61, 0xDC00] False = Inl URIError"
proof -
  let ?u = "js ''fc991dd7-0033@6c 8a''"
  have wf: "wellFormed ?u"
    by (simp add: js_def jc_def isLeadingSurrogate_def isTrailingSurrogate_def)
  have ill: "\<not> wellFormed [0x61, 0xDC00]"
    by (simp add: isLeadingSurrogate_def isTrailingSurrogate_def)
  have p: "processedUuid ?u = js ''fc991dd7-0033@6c%208a''"
    by (simp add: processedUuid_def percentEncoded_def encodeURIComponent_def js_def jc_def
        isUnreserved_def isLeadingSurrogate_def isTrailingSurrogate_def utf8_def percentEscape_def
        hexDigit_def)
  have build: "BUILD demo_assetEnv" "decodeUuid demo_assetEnv = (\<lambda>u. u)" "\<not> BUILD demo_previewEnv"
    by (simp_all add: demo_assetEnv_def demo_previewEnv_def)
  have a: "getLibUrlNoExt demo_assetEnv demo_library ?u True
      = Inr (libUrlNoExt (u_rawAssetsBase demo_library @ js ''assets/'') ?u)"
    using getLibUrlNoExt_url [of demo_assetEnv ?u demo_library True] wf build by simp
  have b: "getLibUrlNoExt demo_previewEnv demo_library ?u True
      = Inr (libUrlNoExt (u_libraryBase demo_library) ?u)"
    using getLibUrlNoExt_url [of demo_previewEnv ?u demo_library True] wf build by simp
  have c: "getLibUrlNoExt demo_assetEnv demo_library [0x61, 0xDC00] False = Inl URIError"
    using getLibUrlNoExt_url [of demo_assetEnv "[0x61, 0xDC00]" demo_library False] ill build by simp
  have a': "libUrlNoExt (u_rawAssetsBase demo_library @ js ''assets/'') ?u
      = js ''res/raw-assets/fc/fc991dd7-0033@6c%208a''"
    by (simp add: libUrlNoExt_def p demo_library_bases) (simp add: js_def)
  have b': "libUrlNoExt (u_libraryBase demo_library) ?u = js ''res/import/fc/fc991dd7-0033@6c%208a''"
    by (simp add: libUrlNoExt_def p demo_library_bases) (simp add: js_def)
  from wf a b ill c show ?thesis
    by (simp only: a' b' simp_thms)
qed

subsection \<open>\<open>queryAssetInfo\<close>\<close>

text \<open>
  C5, as the spec states it, fails: for a uuid that is not a raw asset and has an unpaired
  surrogate, \<open>getLibUrlNoExt\<close> throws and the callback is not invoked.
\<close>

theorem queryAssetInfo_counterexample:
  "\<not> EDITOR demo_previewEnv
   \<and> \<not> isRawAssetUuid demo_previewEnv demo_library [0xD800]
   \<and> queryAssetInfo demo_previewEnv demo_library [0xD800] = Inl URIError"
  by (simp add: queryAssetInfo_def getAssetInfoInRuntime_def isRawAssetUuid_def
      demo_library_value getLibUrlNoExt_def demo_previewEnv_def demo_assetEnv_def
      encodeSegments_def encodeURIComponent_def js_def jc_def isUnreserved_def
      isTrailingSurrogate_def isLeadingSurrogate_def Let_def)

text \<open>
  C5, amended. At runtime (not the editor proper: \<open>EDITOR\<close> unset, or \<open>TEST\<close> set),
  \<open>queryAssetInfo\<close> does one of three things. If the uuid is a key of the raw-asset map
  whose stored type is not a subclass of \<open>Asset\<close>, it invokes the callback once with a
  null error, \<open>_rawAssetsBase\<close> followed by the stored url, and \<open>raw = true\<close>.
  Otherwise, if \<open>getLibUrlNoExt(uuid)\<close> returns, it invokes the callback once with a
  null error, that URL followed by \<open>.json\<close>, and \<open>raw = false\<close>. Otherwise
  \<open>getLibUrlNoExt(uuid)\<close> throws, the exception leaves \<open>queryAssetInfo\<close>, and
  the callback is not invoked.
\<close>

theorem queryAssetInfo_runtime:
  assumes "\<not> (EDITOR env \<and> \<not> TEST env)"
  shows "(isRawAssetUuid env lib uuid \<longrightarrow>
            (\<exists>entry. u_uuidToRawAsset lib uuid = Some entry
              \<and> queryAssetInfo env lib uuid =
                  Inr [CallbackCalled \<lparr> q_error = None,
                                        q_url = Some (u_rawAssetsBase lib @ url entry),
                                        q_raw = Some True, q_ctor = None \<rparr>]))
       \<and> (\<not> isRawAssetUuid env lib uuid \<and> getLibUrlNoExt env lib uuid False = Inr u \<longrightarrow>
            queryAssetInfo env lib uuid =
              Inr [CallbackCalled \<lparr> q_error = None, q_url = Some (u @ js ''.json''),
                                    q_raw = Some False, q_ctor = None \<rparr>])
       \<and> (\<not> isRawAssetUuid env lib uuid \<and> getLibUrlNoExt env lib uuid False = Inl e \<longrightarrow>
            queryAssetInfo env lib uuid = Inl e)"
  using assms
  by (auto simp: queryAssetInfo_def getAssetInfoInRuntime_def isRawAssetUuid_def Let_def
      split: option.splits)

theorem queryAssetInfo_runtime_witness:
  "\<not> (EDITOR demo_assetEnv \<and> \<not> TEST demo_assetEnv)
   \<and> isRawAssetUuid demo_assetEnv demo_library (js ''c3'')
   \<and> queryAssetInfo demo_assetEnv demo_library (js ''c3'') =
       Inr [CallbackCalled \<lparr> q_error = None, q_url = Some (js ''res/raw-assets/data/c.raw''),
                             q_raw = Some True, q_ctor = None \<rparr>]
   \<and> \<not> isRawAssetUuid demo_assetEnv demo_library (js ''a1'')
   \<and> queryAssetInfo demo_assetEnv demo_library (js ''a1'') =
       Inr [CallbackCalled \<lparr> q_error = None, q_url = Some (js ''res/import/a1/a1.json''),
                             q_raw = Some False, q_ctor = None \<rparr>]
   \<and> \<not> isRawAssetUuid demo_assetEnv demo_library [0xDC00]
   \<and> queryAssetInfo demo_assetEnv demo_library [0xDC00] = Inl URIError"
proof -
  have runtime: "\<not> (EDITOR demo_assetEnv \<and> \<not> TEST demo_assetEnv)"
    by (simp add: demo_assetEnv_def)
  have c3: "u_uuidToRawAsset demo_library (js ''c3'')
      = Some \<lparr> url = js ''assets/data/c.raw'', type = Ctor ''cc.RawFile'' \<rparr>"
    by (simp add: demo_library_value js_def jc_def)
  have raw: "isRawAssetUuid demo_assetEnv demo_library (js ''c3'')"
    by (simp add: isRawAssetUuid_def c3) (simp add: demo_assetEnv_def)
  have a1: "u_uuidToRawAsset demo_library (js ''a1'')
      = Some \<lparr> url = js ''assets/img/a.png'', type = Ctor ''cc.Texture2D'' \<rparr>"
    by (simp add: demo_library_value js_def jc_def)
  have imported: "\<not> isRawAssetUuid demo_assetEnv demo_library (js ''a1'')"
    by (simp add: isRawAssetUuid_def a1) (simp add: demo_assetEnv_def)
  have other: "\<not> isRawAssetUuid demo_assetEnv demo_library [0xDC00]"
    by (simp add: isRawAssetUuid_def demo_library_value js_def jc_def)
  have url1: "getLibUrlNoExt demo_assetEnv demo_library (js ''a1'') False = Inr (js ''res/import/a1/a1'')"
    by (simp add: getLibUrlNoExt_def demo_library_bases encodeSegments_def encodeURIComponent_def
        demo_assetEnv_def js_def jc_def isUnreserved_def)
  have url2: "getLibUrlNoExt demo_assetEnv demo_library [0xDC00] False = Inl URIError"
    by (simp add: getLibUrlNoExt_def encodeSegments_def encodeURIComponent_def
        demo_assetEnv_def jc_def isUnreserved_def isTrailingSurrogate_def)
  note q = queryAssetInfo_runtime [OF runtime, where lib = demo_library]
  have a: "queryAssetInfo demo_assetEnv demo_library (js ''c3'') =
       Inr [CallbackCalled \<lparr> q_error = None, q_url = Some (js ''res/raw-assets/data/c.raw''),
                             q_raw = Some True, q_ctor = None \<rparr>]"
    using q [where uuid = "js ''c3''"] raw c3 by (auto simp: demo_library_bases js_def)
  have b: "queryAssetInfo demo_assetEnv demo_library (js ''a1'') =
       Inr [CallbackCalled \<lparr> q_error = None, q_url = Some (js ''res/import/a1/a1.json''),
                             q_raw = Some False, q_ctor = None \<rparr>]"
    using q [where uuid = "js ''a1''" and u = "js ''res/import/a1/a1''"] imported url1
    by (auto simp: js_def)
  have c: "queryAssetInfo demo_assetEnv demo_library [0xDC00] = Inl URIError"
    using q [where uuid = "[0xDC00]" and e = URIError] other url2 by blast
  from runtime raw a imported b other c show ?thesis
    by (intro conjI)
qed

subsection \<open>\<open>loadAsset\<close>\<close>

text \<open>
  C4, as the spec states it, fails: the callback is not the only channel. In the editor,
  when the loader answers without an error and with a scene asset whose \<open>scene\<close> is not
  set, the callback receives the loader's null error and the asset, as for a good load,
  and the corruption is reported by \<open>debug.error\<close> alone.
\<close>

theorem loadAsset_counterexample:
  "loadAsset_loaded demo_editorEnv (js ''a1'') (Some (Callback 7)) JsNull
      (JsObject \<lparr> u_uuid = js ''a1'', isSceneAsset = True, scene = False \<rparr>) =
     ([\<lparr> invoked = Callback 7, arg_error = JsNull,
         arg_asset = JsObject \<lparr> u_uuid = js ''a1'', isSceneAsset = True, scene = False \<rparr> \<rparr>],
      [DebugError [js ''Sorry, the scene data of \"%s\" is corrupted!'', js ''a1'']])"
  by (simp add: loadAsset_loaded_def demo_editorEnv_def demo_assetEnv_def Let_def)

text \<open>
  C4, amended. If the uuid is not a string, the callback is handed to \<open>callInNextTick\<close>
  with the error \<open>[AssetLibrary] uuid must be string\<close> and a null asset, so that it is
  invoked with them on the next tick, and nothing is handed to the loader. If the uuid is a
  string the item goes to the loader. When the loader answers with an error or without an
  asset, the callback receives an \<open>Error\<close> whose message is
  \<open>[AssetLibrary] loading JSON or dependencies failed: \<close> followed by the message of
  the loader's error, or by \<open>Unknown error\<close> if there is none; otherwise it receives the
  loader's falsy error as it is, and the asset. A failed load is reported to the callback
  only: \<open>debug.error\<close> is called in one case, once, in the editor, when the loader
  answers without an error and with a scene asset whose \<open>scene\<close> is not set, and that
  corruption is not reported to the callback.
\<close>

theorem loadAsset_reports_to_callback:
  "loadAsset NotAString (Some cb) options =
     CallInNextTick (Some cb) (new_Error (js ''[AssetLibrary] uuid must be string'')) JsNull
   \<and> nextTick (loadAsset NotAString (Some cb) options) =
     [\<lparr> invoked = cb, arg_error = JsObject (new_Error (js ''[AssetLibrary] uuid must be string'')),
         arg_asset = JsNull \<rparr>]
   \<and> (\<forall>item. loadAsset NotAString callback options \<noteq> LoaderLoad item)
   \<and> (\<exists>item. loadAsset (StringArg uuid) callback options = LoaderLoad item \<and> item_uuid item = uuid)
   \<and> (truthy error \<or> \<not> truthy asset \<longrightarrow>
        fst (loadAsset_loaded env uuid (Some cb) error asset) =
          [\<lparr> invoked = cb,
              arg_error = JsObject (new_Error
                (js ''[AssetLibrary] loading JSON or dependencies failed: ''
                 @ (case error of JsObject e \<Rightarrow> message e | _ \<Rightarrow> js ''Unknown error''))),
              arg_asset = asset \<rparr>])
   \<and> (\<not> truthy error \<and> truthy asset \<longrightarrow>
        fst (loadAsset_loaded env uuid (Some cb) error asset) =
          [\<lparr> invoked = cb, arg_error = error, arg_asset = asset \<rparr>])
   \<and> snd (loadAsset_loaded env uuid callback error asset) =
       (if EDITOR env \<and> \<not> truthy error \<and> corruptedScene asset
        then [DebugError [js ''Sorry, the scene data of \"%s\" is corrupted!'', uuid]]
        else [])"
  by (auto simp: loadAsset_def loadAsset_loaded_def Let_def split: option.splits nullable.splits)

theorem loadAsset_reports_to_callback_witness:
  "truthy (JsObject (new_Error (js ''404'')))
   \<and> fst (loadAsset_loaded demo_assetEnv (js ''a1'') (Some (Callback 7))
            (JsObject (new_Error (js ''404''))) JsUndefined) =
       [\<lparr> invoked = Callback 7,
           arg_error = JsObject (new_Error (js ''[AssetLibrary] loading JSON or dependencies failed: 404'')),
           arg_asset = JsUndefined \<rparr>]
   \<and> \<not> truthy (JsNull :: JsError nullable)
   \<and> truthy (JsObject \<lparr> u_uuid = js ''a1'', isSceneAsset = False, scene = False \<rparr>)
   \<and> fst (loadAsset_loaded demo_assetEnv (js ''a1'') (Some (Callback 7)) JsNull
            (JsObject \<lparr> u_uuid = js ''a1'', isSceneAsset = False, scene = False \<rparr>)) =
       [\<lparr> invoked = Callback 7, arg_error = JsNull,
           arg_asset = JsObject \<lparr> u_uuid = js ''a1'', isSceneAsset = False, scene = False \<rparr> \<rparr>]
   \<and> \<not> EDITOR demo_assetEnv
   \<and> snd (loadAsset_loaded demo_assetEnv (js ''a1'') (Some (Callback 7)) JsNull
            (JsObject \<lparr> u_uuid = js ''a1'', isSceneAsset = True, scene = False \<rparr>)) = []
   \<and> EDITOR demo_editorEnv
   \<and> corruptedScene (JsObject \<lparr> u_uuid = js ''a1'', isSceneAsset = True, scene = False \<rparr>)
   \<and> snd (loadAsset_loaded demo_editorEnv (js ''a1'') (Some (Callback 7)) JsNull
            (JsObject \<lparr> u_uuid = js ''a1'', isSceneAsset = True, scene = False \<rparr>)) =
       [DebugError [js ''Sorry, the scene data of \"%s\" is corrupted!'', js ''a1'']]
   \<and> snd (loadAsset_loaded demo_editorEnv (js ''a1'') (Some (Callback 7))
            (JsObject (new_Error (js ''404'')))
            (JsObject \<lparr> u_uuid = js ''a1'', isSceneAsset = True, scene = False \<rparr>)) = []"
proof -
  let ?asset = "JsObject \<lparr> u_uuid = js ''a1'', isSceneAsset = False, scene = False \<rparr>"
  let ?scene = "JsObject \<lparr> u_uuid = js ''a1'', isSceneAsset = True, scene = False \<rparr>"
  have t1: "truthy (JsObject (new_Error (js ''404'')))" by simp
  have t2: "\<not> truthy (JsNull :: JsError nullable)" by simp
  have t3: "truthy ?asset" by simp
  have rt: "\<not> EDITOR demo_assetEnv" by (simp add: demo_assetEnv_def)
  have "fst (loadAsset_loaded demo_assetEnv (js ''a1'') (Some (Callback 7))
            (JsObject (new_Error (js ''404''))) JsUndefined) =
       [\<lparr> invoked = Callback 7,
           arg_error = JsObject (new_Error
             (js ''[AssetLibrary] loading JSON or dependencies failed: ''
              @ (case JsObject (new_Error (js ''404'')) of JsObject e \<Rightarrow> message e
                 | _ \<Rightarrow> js ''Unknown error''))),
           arg_asset = JsUndefined \<rparr>]"
    using loadAsset_reports_to_callback
      [where env = demo_assetEnv and uuid = "js ''a1''" and cb = "Callback 7"
         and error = "JsObject (new_Error (js ''404''))" and asset = JsUndefined] t1
    by blast
  then have a: "fst (loadAsset_loaded demo_assetEnv (js ''a1'') (Some (Callback 7))
            (JsObject (new_Error (js ''404''))) JsUndefined) =
       [\<lparr> invoked = Callback 7,
           arg_error = JsObject (new_Error (js ''[AssetLibrary] loading JSON or dependencies failed: 404'')),
           arg_asset = JsUndefined \<rparr>]"
    by (simp add: new_Error_def js_def)
  have b: "fst (loadAsset_loaded demo_assetEnv (js ''a1'') (Some (Callback 7)) JsNull ?asset) =
       [\<lparr> invoked = Callback 7, arg_error = JsNull, arg_asset = ?asset \<rparr>]"
    using loadAsset_reports_to_callback
      [where env = demo_assetEnv and uuid = "js ''a1''" and cb = "Callback 7"
         and error = JsNull and asset = ?asset] t2 t3
    by blast
  have ed: "EDITOR demo_editorEnv" by (simp add: demo_editorEnv_def)
  have cs: "corruptedScene ?scene" by simp
  have c: "snd (loadAsset_loaded demo_assetEnv (js ''a1'') (Some (Callback 7)) JsNull ?scene) = []"
    using loadAsset_reports_to_callback
      [where env = demo_assetEnv and uuid = "js ''a1''" and callback = "Some (Callback 7)"
         and error = JsNull and asset = ?scene, THEN conjunct2, THEN conjunct2, THEN conjunct2,
         THEN conjunct2, THEN conjunct2, THEN conjunct2] rt
    by simp
  have d: "snd (loadAsset_loaded demo_editorEnv (js ''a1'') (Some (Callback 7)) JsNull ?scene) =
       [DebugError [js ''Sorry, the scene data of \"%s\" is corrupted!'', js ''a1'']]"
    using loadAsset_reports_to_callback
      [where env = demo_editorEnv and uuid = "js ''a1''" and callback = "Some (Callback 7)"
         and error = JsNull and asset = ?scene, THEN conjunct2, THEN conjunct2, THEN conjunct2,
         THEN conjunct2, THEN conjunct2, THEN conjunct2] ed t2 cs
    by simp
  have e: "snd (loadAsset_loaded demo_editorEnv (js ''a1'') (Some (Callback 7))
            (JsObject (new_Error (js ''404''))) ?scene) = []"
    using loadAsset_reports_to_callback
      [where env = demo_editorEnv and uuid = "js ''a1''" and callback = "Some (Callback 7)"
         and error = "JsObject (new_Error (js ''404''))" and asset = ?scene, THEN conjunct2,
         THEN conjunct2, THEN conjunct2, THEN conjunct2, THEN conjunct2, THEN conjunct2] t1
    by simp
  from t1 a t2 t3 b rt c ed cs d e show ?thesis
    by (intro conjI)
qed

subsection \<open>\<open>getAssetByUuid\<close>\<close>

text \<open>
  C7 holds for every uuid that is not the name of a property of \<open>Object.prototype\<close>: the
  result is the truthy entry stored under the uuid, or \<open>null\<close>. The function returns a
  value only, so the cache is as it was.
\<close>

lemma getAssetByUuid_lookup:
  "uuid \<notin> set Object_prototype \<Longrightarrow>
   getAssetByUuid lib uuid =
     (case u_uuidToAsset lib uuid of Some (JsObject a) \<Rightarrow> JsObject (Own a) | _ \<Rightarrow> JsNull)"
  by (simp add: getAssetByUuid_def objectLiteral_get_def Let_def split: option.splits nullable.splits)

text \<open>
  C7 fails on the code for such a name: with nothing stored in the cache,
  \<open>getAssetByUuid('constructor')\<close> is not \<open>null\<close> but the property
  \<open>constructor\<close> that the cache \<open>{}\<close> inherits from \<open>Object.prototype\<close>.
\<close>

theorem getAssetByUuid_inherited:
  "u_uuidToAsset (new_AssetLibrary tables) (js ''constructor'') = None
   \<and> getAssetByUuid (new_AssetLibrary tables) (js ''constructor'')
       = JsObject (Inherited (js ''constructor''))"
  by (simp add: getAssetByUuid_def objectLiteral_get_def new_AssetLibrary_def Object_prototype_def
      js_def jc_def)

subsection \<open>The raw assets of \<open>init\<close>\<close>

text \<open>The two nested loops are one pass over the entries, in order, with no early exit.\<close>

lemma init_mountPoint_foldl:
  "init_mountPoint env mountPoint assets lib =
     foldl (\<lambda>l (m, uuid, info). init_rawAsset env m uuid info l) lib
       (map (\<lambda>(uuid, info). (mountPoint, uuid, info)) assets)"
  by (induction assets arbitrary: lib) auto

lemma init_rawAssets_foldl:
  "init_rawAssets env mounts lib =
     foldl (\<lambda>l (m, uuid, info). init_rawAsset env m uuid info l) lib (rawAssetEntries mounts)"
  by (induction mounts arbitrary: lib) (auto simp: rawAssetEntries_def init_mountPoint_foldl)

text \<open>What one pass of the loop body does to the three things it touches.\<close>

lemma init_rawAsset_resolved:
  "getClassById env (info1_typeId info) = Some ty \<Longrightarrow>
   init_rawAsset env mountPoint uuid info lib =
     lib\<lparr>u_uuidToRawAsset := (u_uuidToRawAsset lib)
            (uuid \<mapsto> \<lparr> url = mountPoint @ js ''/'' @ info0_url info, type = ty \<rparr>),
         u_assetTables := (u_assetTables lib)
            (mountPoint \<mapsto>
               (case u_assetTables lib mountPoint of None \<Rightarrow> [] | Some t \<Rightarrow> t)
               @ [\<lparr> entry_url = info0_url info, entry_uuid = uuid, entry_type = ty,
                     isMainAsset = \<not> info2_isSubAsset info \<rparr>])\<rparr>"
  by (simp add: init_rawAsset_def AssetTable_add_def Let_def)

lemma init_rawAsset_unresolved:
  "getClassById env (info1_typeId info) = None \<Longrightarrow>
   init_rawAsset env mountPoint uuid info lib =
     lib\<lparr>debugLog := debugLog lib @ [DebugError [js ''Cannot get'', info1_typeId info]]\<rparr>"
  by (simp add: init_rawAsset_def Let_def)

lemma init_rawAsset_other_uuid:
  "uuid' \<noteq> uuid \<Longrightarrow>
   u_uuidToRawAsset (init_rawAsset env mountPoint uuid info lib) uuid' = u_uuidToRawAsset lib uuid'"
  by (simp add: init_rawAsset_def Let_def split: option.splits)

lemma init_rawAsset_keeps_table_entries:
  "u_assetTables lib m = Some t \<Longrightarrow> e \<in> set t \<Longrightarrow>
   \<exists>t'. u_assetTables (init_rawAsset env mountPoint uuid info lib) m = Some t' \<and> e \<in> set t'"
  by (auto simp: init_rawAsset_def AssetTable_add_def Let_def split: option.splits)

lemma init_rawAsset_keeps_log:
  "d \<in> set (debugLog lib) \<Longrightarrow> d \<in> set (debugLog (init_rawAsset env mountPoint uuid info lib))"
  by (auto simp: init_rawAsset_def Let_def split: option.splits)

text \<open>The same over the rest of a pass.\<close>

lemma entries_other_uuid:
  "uuid' \<notin> set (map (\<lambda>e. fst (snd e)) es) \<Longrightarrow>
   u_uuidToRawAsset (foldl (\<lambda>l (m, uuid, info). init_rawAsset env m uuid info l) lib es) uuid'
     = u_uuidToRawAsset lib uuid'"
  by (induction es arbitrary: lib) (auto simp: init_rawAsset_other_uuid)

lemma entries_keep_table_entries:
  "u_assetTables lib m = Some t \<Longrightarrow> e \<in> set t \<Longrightarrow>
   \<exists>t'. u_assetTables (foldl (\<lambda>l (m, uuid, info). init_rawAsset env m uuid info l) lib es) m = Some t'
        \<and> e \<in> set t'"
proof (induction es arbitrary: lib t)
  case Nil
  then show ?case by simp
next
  case (Cons a es)
  obtain mp uuid info where a: "a = (mp, uuid, info)"
    by (cases a) auto
  from init_rawAsset_keeps_table_entries [OF Cons.prems, of env mp uuid info]
  obtain t' where "u_assetTables (init_rawAsset env mp uuid info lib) m = Some t'" "e \<in> set t'"
    by blast
  from Cons.IH [OF this] show ?case
    by (simp add: a)
qed

lemma entries_keep_log:
  "d \<in> set (debugLog lib) \<Longrightarrow>
   d \<in> set (debugLog (foldl (\<lambda>l (m, uuid, info). init_rawAsset env m uuid info l) lib es))"
  by (induction es arbitrary: lib) (auto simp: init_rawAsset_keeps_log)

lemma entries_resolved:
  assumes "distinct (map (\<lambda>e. fst (snd e)) es)" and "(mountPoint, uuid, info) \<in> set es"
    and "getClassById env (info1_typeId info) = Some ty"
  shows "u_uuidToRawAsset (foldl (\<lambda>l (m, uuid, info). init_rawAsset env m uuid info l) lib es) uuid
           = Some \<lparr> url = mountPoint @ js ''/'' @ info0_url info, type = ty \<rparr>
         \<and> (\<exists>t. u_assetTables (foldl (\<lambda>l (m, uuid, info). init_rawAsset env m uuid info l) lib es)
                   mountPoint = Some t
                \<and> \<lparr> entry_url = info0_url info, entry_uuid = uuid, entry_type = ty,
                     isMainAsset = \<not> info2_isSubAsset info \<rparr> \<in> set t)"
  using assms(1,2)
proof (induction es arbitrary: lib)
  case Nil
  then show ?case by simp
next
  case (Cons a es)
  let ?step = "\<lambda>l (m, uuid, info). init_rawAsset env m uuid info l"
  show ?case
  proof (cases "a = (mountPoint, uuid, info)")
    case True
    let ?lib = "init_rawAsset env mountPoint uuid info lib"
    from Cons.prems(1) True have "uuid \<notin> set (map (\<lambda>e. fst (snd e)) es)"
      by simp
    then have m: "u_uuidToRawAsset (foldl ?step ?lib es) uuid = u_uuidToRawAsset ?lib uuid"
      by (rule entries_other_uuid)
    have entry: "u_uuidToRawAsset ?lib uuid
        = Some \<lparr> url = mountPoint @ js ''/'' @ info0_url info, type = ty \<rparr>"
      by (simp add: init_rawAsset_resolved [OF assms(3)])
    have "\<exists>t. u_assetTables ?lib mountPoint = Some t
        \<and> \<lparr> entry_url = info0_url info, entry_uuid = uuid, entry_type = ty,
             isMainAsset = \<not> info2_isSubAsset info \<rparr> \<in> set t"
      by (simp add: init_rawAsset_resolved [OF assms(3)])
    then obtain t where "u_assetTables ?lib mountPoint = Some t"
      "\<lparr> entry_url = info0_url info, entry_uuid = uuid, entry_type = ty,
         isMainAsset = \<not> info2_isSubAsset info \<rparr> \<in> set t"
      by blast
    from entries_keep_table_entries [OF this, of env es] m entry True show ?thesis
      by simp
  next
    case False
    obtain mp u i where a: "a = (mp, u, i)"
      by (cases a) auto
    from Cons.prems(1) have d: "distinct (map (\<lambda>e. fst (snd e)) es)"
      by simp
    from False Cons.prems(2) have mem: "(mountPoint, uuid, info) \<in> set es"
      by simp
    from Cons.IH [OF d mem, of "init_rawAsset env mp u i lib"] show ?thesis
      by (simp add: a)
  qed
qed

lemma entries_unresolved:
  assumes "distinct (map (\<lambda>e. fst (snd e)) es)" and "(mountPoint, uuid, info) \<in> set es"
    and "getClassById env (info1_typeId info) = None"
  shows "u_uuidToRawAsset (foldl (\<lambda>l (m, uuid, info). init_rawAsset env m uuid info l) lib es) uuid
           = u_uuidToRawAsset lib uuid
         \<and> DebugError [js ''Cannot get'', info1_typeId info]
             \<in> set (debugLog (foldl (\<lambda>l (m, uuid, info). init_rawAsset env m uuid info l) lib es))"
  using assms(1,2)
proof (induction es arbitrary: lib)
  case Nil
  then show ?case by simp
next
  case (Cons a es)
  let ?step = "\<lambda>l (m, uuid, info). init_rawAsset env m uuid info l"
  show ?case
  proof (cases "a = (mountPoint, uuid, info)")
    case True
    let ?lib = "init_rawAsset env mountPoint uuid info lib"
    from Cons.prems(1) True have "uuid \<notin> set (map (\<lambda>e. fst (snd e)) es)"
      by simp
    then have m: "u_uuidToRawAsset (foldl ?step ?lib es) uuid = u_uuidToRawAsset ?lib uuid"
      by (rule entries_other_uuid)
    have same: "u_uuidToRawAsset ?lib uuid = u_uuidToRawAsset lib uuid"
      by (simp add: init_rawAsset_unresolved [OF assms(3)])
    have "DebugError [js ''Cannot get'', info1_typeId info] \<in> set (debugLog ?lib)"
      by (simp add: init_rawAsset_unresolved [OF assms(3)])
    from entries_keep_log [OF this, of env es] m same True show ?thesis
      by simp
  next
    case False
    obtain mp u i where a: "a = (mp, u, i)"
      by (cases a) auto
    from Cons.prems(1) have d: "distinct (map (\<lambda>e. fst (snd e)) es)"
      by simp
    from False Cons.prems(2) have mem: "(mountPoint, uuid, info) \<in> set es"
      by simp
    then have "uuid \<in> set (map (\<lambda>e. fst (snd e)) es)"
      by force
    with Cons.prems(1) have other: "uuid \<noteq> u"
      by (auto simp: a)
    from Cons.IH [OF d mem, of "init_rawAsset env mp u i lib"] other show ?thesis
      by (simp add: a init_rawAsset_other_uuid)
  qed
qed

text \<open>
  The pass reads and writes the raw-asset map, the asset tables and the debug log, and
  nothing else of the module; the other steps of \<open>init\<close> write none of the three, but
  for the reset of the tables before the pass.
\<close>

lemma init_rawAsset_frame:
  assumes "u_uuidToRawAsset lib = u_uuidToRawAsset lib'"
    and "u_assetTables lib = u_assetTables lib'" and "debugLog lib = debugLog lib'"
  shows "u_uuidToRawAsset (init_rawAsset env m uuid info lib)
           = u_uuidToRawAsset (init_rawAsset env m uuid info lib')
         \<and> u_assetTables (init_rawAsset env m uuid info lib)
           = u_assetTables (init_rawAsset env m uuid info lib')
         \<and> debugLog (init_rawAsset env m uuid info lib)
           = debugLog (init_rawAsset env m uuid info lib')"
  using assms by (simp add: init_rawAsset_def Let_def split: option.splits)

lemma entries_frame:
  assumes "u_uuidToRawAsset lib = u_uuidToRawAsset lib'"
    and "u_assetTables lib = u_assetTables lib'" and "debugLog lib = debugLog lib'"
  shows "u_uuidToRawAsset (foldl (\<lambda>l (m, uuid, info). init_rawAsset env m uuid info l) lib es)
           = u_uuidToRawAsset (foldl (\<lambda>l (m, uuid, info). init_rawAsset env m uuid info l) lib' es)
         \<and> u_assetTables (foldl (\<lambda>l (m, uuid, info). init_rawAsset env m uuid info l) lib es)
           = u_assetTables (foldl (\<lambda>l (m, uuid, info). init_rawAsset env m uuid info l) lib' es)
         \<and> debugLog (foldl (\<lambda>l (m, uuid, info). init_rawAsset env m uuid info l) lib es)
           = debugLog (foldl (\<lambda>l (m, uuid, info). init_rawAsset env m uuid info l) lib' es)"
  using assms
proof (induction es arbitrary: lib lib')
  case Nil
  then show ?case by simp
next
  case (Cons a es)
  obtain m uuid info where a: "a = (m, uuid, info)"
    by (cases a) auto
  note f = init_rawAsset_frame [OF Cons.prems, of env m uuid info]
  from Cons.IH [OF f [THEN conjunct1] f [THEN conjunct2, THEN conjunct1]
      f [THEN conjunct2, THEN conjunct2]]
  show ?case
    by (simp add: a)
qed

lemma init_rawAssets_frame:
  assumes "u_uuidToRawAsset lib = u_uuidToRawAsset lib'"
    and "u_assetTables lib = u_assetTables lib'" and "debugLog lib = debugLog lib'"
  shows "u_uuidToRawAsset (init_rawAssets env mounts lib) = u_uuidToRawAsset (init_rawAssets env mounts lib')
         \<and> u_assetTables (init_rawAssets env mounts lib) = u_assetTables (init_rawAssets env mounts lib')
         \<and> debugLog (init_rawAssets env mounts lib) = debugLog (init_rawAssets env mounts lib')"
  using entries_frame [OF assms] by (simp add: init_rawAssets_foldl)

lemma init_md5_frame:
  "init_md5 env md5 lib = Inr lib' \<Longrightarrow>
   u_uuidToRawAsset lib' = u_uuidToRawAsset lib \<and> u_assetTables lib' = u_assetTables lib
   \<and> debugLog lib' = debugLog lib"
  by (auto simp: init_md5_def split: option.splits sum.splits)

text \<open>The module as the pass of \<open>init\<close> finds it: every asset table reset.\<close>

lemma init_runs_rawAssets:
  assumes "\<not> (EDITOR env \<and> u_libraryBase lib \<noteq> [])"
    and "snd (init env options lib) = None"
    and "rawAssets options = Some mounts"
  shows "u_uuidToRawAsset (fst (init env options lib))
           = u_uuidToRawAsset (init_rawAssets env mounts
               (lib\<lparr>u_assetTables := map_option AssetTable_reset \<circ> u_assetTables lib\<rparr>))
         \<and> u_assetTables (fst (init env options lib))
           = u_assetTables (init_rawAssets env mounts
               (lib\<lparr>u_assetTables := map_option AssetTable_reset \<circ> u_assetTables lib\<rparr>))
         \<and> debugLog (fst (init env options lib))
           = debugLog (init_rawAssets env mounts
               (lib\<lparr>u_assetTables := map_option AssetTable_reset \<circ> u_assetTables lib\<rparr>))"
proof -
  let ?lib0 = "lib\<lparr>u_assetTables := map_option AssetTable_reset \<circ> u_assetTables lib\<rparr>"
  let ?lib1 = "lib\<lparr>u_libraryBase := stripSep env
        (map (\<lambda>c. if c = jc CHR 0x5C then jc CHR ''/'' else c) (libraryPath options)) @ js ''/'',
      u_rawAssetsBase := rawAssetsBase options\<rparr>"
  from assms(1,2) obtain lib2 where md5: "init_md5 env (md5AssetsMap options) ?lib1 = Inr lib2"
    by (cases "init_md5 env (md5AssetsMap options) ?lib1")
      (simp_all add: init_def Let_def if_not_P [OF assms(1)])
  let ?lib3 = "case subPackages options of None \<Rightarrow> lib2
      | Some sp \<Rightarrow> lib2\<lparr>loaderCalls := loaderCalls lib2 @ [SetSubPackages sp, InsertSubPackPipe sp]\<rparr>"
  let ?lib4 = "?lib3\<lparr>u_assetTables := map_option AssetTable_reset \<circ> u_assetTables ?lib3\<rparr>"
  from init_md5_frame [OF md5] have
    "u_uuidToRawAsset ?lib4 = u_uuidToRawAsset ?lib0
     \<and> u_assetTables ?lib4 = u_assetTables ?lib0 \<and> debugLog ?lib4 = debugLog ?lib0"
    by (simp split: option.splits)
  then have f: "u_uuidToRawAsset (init_rawAssets env mounts ?lib4)
        = u_uuidToRawAsset (init_rawAssets env mounts ?lib0)
      \<and> u_assetTables (init_rawAssets env mounts ?lib4)
        = u_assetTables (init_rawAssets env mounts ?lib0)
      \<and> debugLog (init_rawAssets env mounts ?lib4) = debugLog (init_rawAssets env mounts ?lib0)"
    using init_rawAssets_frame [of ?lib4 ?lib0 env mounts] by blast
  have "u_uuidToRawAsset (fst (init env options lib)) = u_uuidToRawAsset (init_rawAssets env mounts ?lib4)
      \<and> u_assetTables (fst (init env options lib)) = u_assetTables (init_rawAssets env mounts ?lib4)
      \<and> debugLog (fst (init env options lib)) = debugLog (init_rawAssets env mounts ?lib4)"
    using assms(3) md5 by (simp add: init_def Let_def if_not_P [OF assms(1)] split: option.splits)
  with f show ?thesis
    by simp
qed

text \<open>
  C6. In the pass of \<open>init\<close> over \<open>options.rawAssets\<close>, an entry whose type id resolves
  to a class stores a \<open>RawAssetEntry\<close> with \<open>url = mountPoint + '/' + url\<close> and the
  class under its uuid, and adds the entry to the asset table of its mount point (made if
  missing); an entry whose type id does not resolve only logs \<open>Cannot get\<close>. The pass
  visits every entry in order, whatever the entries before it did. So, the uuids of the
  entries being distinct, after the pass every resolved entry is in the map and in its
  table, and every unresolved one has left the map as it was at its uuid. A call of
  \<open>init\<close> that is not refused (the editor, already initialised) and does not throw
  leaves the map, the tables and the log as this pass leaves them, starting from reset
  tables.
\<close>

theorem init_rawAssets_entries:
  "(getClassById env (info1_typeId info) = Some ty \<longrightarrow>
      init_rawAsset env mountPoint uuid info lib =
        lib\<lparr>u_uuidToRawAsset := (u_uuidToRawAsset lib)
               (uuid \<mapsto> \<lparr> url = mountPoint @ js ''/'' @ info0_url info, type = ty \<rparr>),
            u_assetTables := (u_assetTables lib)
               (mountPoint \<mapsto>
                  (case u_assetTables lib mountPoint of None \<Rightarrow> [] | Some t \<Rightarrow> t)
                  @ [\<lparr> entry_url = info0_url info, entry_uuid = uuid, entry_type = ty,
                        isMainAsset = \<not> info2_isSubAsset info \<rparr>])\<rparr>)
   \<and> (getClassById env (info1_typeId info) = None \<longrightarrow>
      init_rawAsset env mountPoint uuid info lib =
        lib\<lparr>debugLog := debugLog lib @ [DebugError [js ''Cannot get'', info1_typeId info]]\<rparr>)
   \<and> init_rawAssets env mounts lib =
        foldl (\<lambda>l (m, uuid, info). init_rawAsset env m uuid info l) lib (rawAssetEntries mounts)
   \<and> (distinct (map (\<lambda>e. fst (snd e)) (rawAssetEntries mounts))
        \<and> (mountPoint, uuid, info) \<in> set (rawAssetEntries mounts)
        \<and> getClassById env (info1_typeId info) = Some ty \<longrightarrow>
      u_uuidToRawAsset (init_rawAssets env mounts lib) uuid
        = Some \<lparr> url = mountPoint @ js ''/'' @ info0_url info, type = ty \<rparr>
      \<and> (\<exists>t. u_assetTables (init_rawAssets env mounts lib) mountPoint = Some t
             \<and> \<lparr> entry_url = info0_url info, entry_uuid = uuid, entry_type = ty,
                  isMainAsset = \<not> info2_isSubAsset info \<rparr> \<in> set t))
   \<and> (distinct (map (\<lambda>e. fst (snd e)) (rawAssetEntries mounts))
        \<and> (mountPoint, uuid, info) \<in> set (rawAssetEntries mounts)
        \<and> getClassById env (info1_typeId info) = None \<longrightarrow>
      u_uuidToRawAsset (init_rawAssets env mounts lib) uuid = u_uuidToRawAsset lib uuid
      \<and> DebugError [js ''Cannot get'', info1_typeId info]
          \<in> set (debugLog (init_rawAssets env mounts lib)))
   \<and> (\<not> (EDITOR env \<and> u_libraryBase lib \<noteq> []) \<and> snd (init env options lib) = None
        \<and> rawAssets options = Some mounts \<longrightarrow>
      u_uuidToRawAsset (fst (init env options lib))
        = u_uuidToRawAsset (init_rawAssets env mounts
            (lib\<lparr>u_assetTables := map_option AssetTable_reset \<circ> u_assetTables lib\<rparr>))
      \<and> u_assetTables (fst (init env options lib))
        = u_assetTables (init_rawAssets env mounts
            (lib\<lparr>u_assetTables := map_option AssetTable_reset \<circ> u_assetTables lib\<rparr>))
      \<and> debugLog (fst (init env options lib))
        = debugLog (init_rawAssets env mounts
            (lib\<lparr>u_assetTables := map_option AssetTable_reset \<circ> u_assetTables lib\<rparr>)))"
proof (intro conjI impI)
  show "init_rawAsset env mountPoint uuid info lib =
        lib\<lparr>u_uuidToRawAsset := (u_uuidToRawAsset lib)
               (uuid \<mapsto> \<lparr> url = mountPoint @ js ''/'' @ info0_url info, type = ty \<rparr>),
            u_assetTables := (u_assetTables lib)
               (mountPoint \<mapsto>
                  (case u_assetTables lib mountPoint of None \<Rightarrow> [] | Some t \<Rightarrow> t)
                  @ [\<lparr> entry_url = info0_url info, entry_uuid = uuid, entry_type = ty,
                        isMainAsset = \<not> info2_isSubAsset info \<rparr>])\<rparr>"
    if "getClassById env (info1_typeId info) = Some ty"
    using that by (rule init_rawAsset_resolved)
  show "init_rawAsset env mountPoint uuid info lib =
        lib\<lparr>debugLog := debugLog lib @ [DebugError [js ''Cannot get'', info1_typeId info]]\<rparr>"
    if "getClassById env (info1_typeId info) = None"
    using that by (rule init_rawAsset_unresolved)
  show "init_rawAssets env mounts lib =
        foldl (\<lambda>l (m, uuid, info). init_rawAsset env m uuid info l) lib (rawAssetEntries mounts)"
    by (rule init_rawAssets_foldl)
next
  assume a: "distinct (map (\<lambda>e. fst (snd e)) (rawAssetEntries mounts))
        \<and> (mountPoint, uuid, info) \<in> set (rawAssetEntries mounts)
        \<and> getClassById env (info1_typeId info) = Some ty"
  note r = entries_resolved [of "rawAssetEntries mounts" mountPoint uuid info env ty lib,
      folded init_rawAssets_foldl]
  from a r show "u_uuidToRawAsset (init_rawAssets env mounts lib) uuid
        = Some \<lparr> url = mountPoint @ js ''/'' @ info0_url info, type = ty \<rparr>"
    by blast
  from a r show "\<exists>t. u_assetTables (init_rawAssets env mounts lib) mountPoint = Some t
             \<and> \<lparr> entry_url = info0_url info, entry_uuid = uuid, entry_type = ty,
                  isMainAsset = \<not> info2_isSubAsset info \<rparr> \<in> set t"
    by blast
next
  assume a: "distinct (map (\<lambda>e. fst (snd e)) (rawAssetEntries mounts))
        \<and> (mountPoint, uuid, info) \<in> set (rawAssetEntries mounts)
        \<and> getClassById env (info1_typeId info) = None"
  note r = entries_unresolved [of "rawAssetEntries mounts" mountPoint uuid info env lib,
      folded init_rawAssets_foldl]
  from a r show "u_uuidToRawAsset (init_rawAssets env mounts lib) uuid = u_uuidToRawAsset lib uuid"
    by blast
  from a r show "DebugError [js ''Cannot get'', info1_typeId info]
          \<in> set (debugLog (init_rawAssets env mounts lib))"
    by blast
next
  assume a: "\<not> (EDITOR env \<and> u_libraryBase lib \<noteq> []) \<and> snd (init env options lib) = None
        \<and> rawAssets options = Some mounts"
  note r = init_runs_rawAssets [of env lib options mounts]
  from a r show "u_uuidToRawAsset (fst (init env options lib))
        = u_uuidToRawAsset (init_rawAssets env mounts
            (lib\<lparr>u_assetTables := map_option AssetTable_reset \<circ> u_assetTables lib\<rparr>))"
    by blast
  from a r show "u_assetTables (fst (init env options lib))
        = u_assetTables (init_rawAssets env mounts
            (lib\<lparr>u_assetTables := map_option AssetTable_reset \<circ> u_assetTables lib\<rparr>))"
    by blast
  from a r show "debugLog (fst (init env options lib))
        = debugLog (init_rawAssets env mounts
            (lib\<lparr>u_assetTables := map_option AssetTable_reset \<circ> u_assetTables lib\<rparr>))"
    by blast
qed

theorem init_rawAssets_entries_witness:
  "getClassById demo_assetEnv (js ''cc.Texture2D'') = Some (Ctor ''cc.Texture2D'')
   \<and> getClassById demo_assetEnv (js ''cc.Missing'') = None
   \<and> distinct (map (\<lambda>e. fst (snd e)) (rawAssetEntries demo_mounts))
   \<and> snd (init demo_assetEnv demo_options (new_AssetLibrary Map.empty)) = None
   \<and> u_uuidToRawAsset
        (init_rawAsset demo_assetEnv (js ''assets'') (js ''a1'')
          \<lparr> info0_url = js ''img/a.png'', info1_typeId = js ''cc.Texture2D'', info2_isSubAsset = False \<rparr>
          (new_AssetLibrary Map.empty)) (js ''a1'')
       = Some \<lparr> url = js ''assets/img/a.png'', type = Ctor ''cc.Texture2D'' \<rparr>
   \<and> init_rawAsset demo_assetEnv (js ''assets'') (js ''b2'')
          \<lparr> info0_url = js ''x.bin'', info1_typeId = js ''cc.Missing'', info2_isSubAsset = False \<rparr>
          (new_AssetLibrary Map.empty)
       = (new_AssetLibrary Map.empty)\<lparr>debugLog := [DebugError [js ''Cannot get'', js ''cc.Missing'']]\<rparr>
   \<and> u_uuidToRawAsset demo_library (js ''a1'')
       = Some \<lparr> url = js ''assets/img/a.png'', type = Ctor ''cc.Texture2D'' \<rparr>
   \<and> u_uuidToRawAsset demo_library (js ''b2'') = None
   \<and> DebugError [js ''Cannot get'', js ''cc.Missing''] \<in> set (debugLog demo_library)"
proof -
  let ?fresh = "new_AssetLibrary Map.empty"
  let ?reset = "?fresh\<lparr>u_assetTables := map_option AssetTable_reset \<circ> u_assetTables ?fresh\<rparr>"
  let ?a1 = "\<lparr> info0_url = js ''img/a.png'', info1_typeId = js ''cc.Texture2D'',
               info2_isSubAsset = False \<rparr>"
  let ?b2 = "\<lparr> info0_url = js ''x.bin'', info1_typeId = js ''cc.Missing'',
               info2_isSubAsset = False \<rparr>"
  have tex: "getClassById demo_assetEnv (js ''cc.Texture2D'') = Some (Ctor ''cc.Texture2D'')"
    by (simp add: demo_assetEnv_def)
  have missing: "getClassById demo_assetEnv (js ''cc.Missing'') = None"
    by (simp add: demo_assetEnv_def js_def jc_def)
  have entries: "rawAssetEntries demo_mounts =
      [(js ''assets'', js ''a1'', ?a1), (js ''assets'', js ''b2'', ?b2),
       (js ''assets'', js ''c3'', \<lparr> info0_url = js ''data/c.raw'', info1_typeId = js ''cc.RawFile'',
                                    info2_isSubAsset = True \<rparr>)]"
    by (simp add: rawAssetEntries_def demo_mounts_def)
  have dist: "distinct (map (\<lambda>e. fst (snd e)) (rawAssetEntries demo_mounts))"
    by (simp add: entries js_def jc_def)
  have a1: "(js ''assets'', js ''a1'', ?a1) \<in> set (rawAssetEntries demo_mounts)"
    by (simp add: entries)
  have b2: "(js ''assets'', js ''b2'', ?b2) \<in> set (rawAssetEntries demo_mounts)"
    by (simp add: entries)
  have fresh: "\<not> (EDITOR demo_assetEnv \<and> u_libraryBase ?fresh \<noteq> [])"
    by (simp add: demo_assetEnv_def)
  have completes: "snd (init demo_assetEnv demo_options ?fresh) = None"
    by (simp add: init_def demo_assetEnv_def demo_options_def init_md5_def Let_def)
  have opts: "rawAssets demo_options = Some demo_mounts"
    by (simp add: demo_options_def)
  note t1 = init_rawAssets_entries [where env = demo_assetEnv and mounts = demo_mounts
      and options = demo_options and mountPoint = "js ''assets''" and uuid = "js ''a1''"
      and info = ?a1 and ty = "Ctor ''cc.Texture2D''"]
  note t2 = init_rawAssets_entries [where env = demo_assetEnv and mounts = demo_mounts
      and options = demo_options and mountPoint = "js ''assets''" and uuid = "js ''b2''"
      and info = ?b2]
  have m: "u_uuidToRawAsset demo_library
      = u_uuidToRawAsset (init_rawAssets demo_assetEnv demo_mounts ?reset)"
    using t1 [where lib = ?fresh] fresh completes opts unfolding demo_library_def by blast
  have l: "debugLog demo_library = debugLog (init_rawAssets demo_assetEnv demo_mounts ?reset)"
    using t1 [where lib = ?fresh] fresh completes opts unfolding demo_library_def by blast
  have tex': "getClassById demo_assetEnv (info1_typeId ?a1) = Some (Ctor ''cc.Texture2D'')"
    by (simp add: tex)
  have missing': "getClassById demo_assetEnv (info1_typeId ?b2) = None"
    by (simp add: missing)
  have r1: "u_uuidToRawAsset (init_rawAssets demo_assetEnv demo_mounts ?reset) (js ''a1'')
      = Some \<lparr> url = js ''assets'' @ js ''/'' @ info0_url ?a1, type = Ctor ''cc.Texture2D'' \<rparr>"
    using t1 [where lib = ?reset] dist a1 tex' by blast
  have r2: "u_uuidToRawAsset (init_rawAssets demo_assetEnv demo_mounts ?reset) (js ''b2'')
        = u_uuidToRawAsset ?reset (js ''b2'')
      \<and> DebugError [js ''Cannot get'', info1_typeId ?b2]
          \<in> set (debugLog (init_rawAssets demo_assetEnv demo_mounts ?reset))"
    using t2 [where lib = ?reset] dist b2 missing' by blast
  have x: "u_uuidToRawAsset demo_library (js ''a1'')
       = Some \<lparr> url = js ''assets/img/a.png'', type = Ctor ''cc.Texture2D'' \<rparr>"
    using r1 by (simp add: m js_def)
  have y: "u_uuidToRawAsset demo_library (js ''b2'') = None"
    using r2 by (simp add: m new_AssetLibrary_def)
  have z: "DebugError [js ''Cannot get'', js ''cc.Missing''] \<in> set (debugLog demo_library)"
    using r2 by (simp add: l)
  have "init_rawAsset demo_assetEnv (js ''assets'') (js ''a1'') ?a1 ?fresh =
      ?fresh\<lparr>u_uuidToRawAsset := (u_uuidToRawAsset ?fresh)
               (js ''a1'' \<mapsto> \<lparr> url = js ''assets'' @ js ''/'' @ info0_url ?a1, type = Ctor ''cc.Texture2D'' \<rparr>),
            u_assetTables := (u_assetTables ?fresh)
               (js ''assets'' \<mapsto>
                  (case u_assetTables ?fresh (js ''assets'') of None \<Rightarrow> [] | Some t \<Rightarrow> t)
                  @ [\<lparr> entry_url = info0_url ?a1, entry_uuid = js ''a1'', entry_type = Ctor ''cc.Texture2D'',
                        isMainAsset = \<not> info2_isSubAsset ?a1 \<rparr>])\<rparr>"
    using t1 [where lib = ?fresh] tex' by blast
  then have v: "u_uuidToRawAsset (init_rawAsset demo_assetEnv (js ''assets'') (js ''a1'') ?a1 ?fresh) (js ''a1'')
       = Some \<lparr> url = js ''assets/img/a.png'', type = Ctor ''cc.Texture2D'' \<rparr>"
    by (simp add: js_def)
  have "init_rawAsset demo_assetEnv (js ''assets'') (js ''b2'') ?b2 ?fresh =
      ?fresh\<lparr>debugLog := debugLog ?fresh @ [DebugError [js ''Cannot get'', info1_typeId ?b2]]\<rparr>"
    using t2 [where lib = ?fresh] missing' by blast
  then have w: "init_rawAsset demo_assetEnv (js ''assets'') (js ''b2'') ?b2 ?fresh
       = ?fresh\<lparr>debugLog := [DebugError [js ''Cannot get'', js ''cc.Missing'']]\<rparr>"
    by (simp add: new_AssetLibrary_def)
  from tex missing dist completes v w x y z show ?thesis
    by (intro conjI)
qed

end
